theory Spec2Isabelle
  imports Complex_Main
begin

section \<open>Data model (src/lib/types.tsx)\<close>

text \<open>
  \<^verbatim>\<open>Category = { id: number; name: string }\<close> and
  \<^verbatim>\<open>Product = { id: number; name: string; price: number; categories: Category[] }\<close>.
  Identifiers are integers; a price that arrives from the server is a finite
  JavaScript number, modelled as a rational (the documentation of the services shows
  prices such as 19.99).
\<close>

datatype category = Category (category_id: int) (category_name: string)

datatype product =
  Product (product_id: int) (product_name: string) (product_price: rat)
    (product_categories: "category list")

datatype status = StatusSuccess | StatusError

text \<open>
  A JavaScript number that a form can hold: a finite value, or the Infinity that
  \<^verbatim>\<open>parseInt\<close> returns for a digit string beyond the range of a double.
\<close>

datatype jsnumber = Finite rat | PosInfinity

text \<open>\<^verbatim>\<open>Response<T> = { data: T; message: string; status: "success" | "error" }\<close>\<close>

record 'd response =
  data :: 'd
  message :: string
  status :: status

text \<open>
  A cached list response. The updaters test \<^verbatim>\<open>!oldData.data\<close>, so the data field can be
  absent at run time: \<open>None\<close> stands for an absent (undefined or null) field. An array,
  also the empty one, is truthy.
\<close>

type_synonym 'a cached = "'a list option response"

section \<open>The query cache and the observable effects\<close>

text \<open>
  A query key is an array; the keys of this program are
  \<^verbatim>\<open>["products", categoryIds, name]\<close>, \<^verbatim>\<open>["products", params]\<close> and \<^verbatim>\<open>["categories"]\<close>.
\<close>

datatype key_part = KString string | KNumbers "int list" | KUndefined

type_synonym query_key = "key_part list"

text \<open>
  One query of the cache: its key, the path its query function requests
  (\<^verbatim>\<open>getProducts\<close>: \<^verbatim>\<open>/api/products\<close>, \<^verbatim>\<open>getCategories\<close>: \<^verbatim>\<open>/api/categories\<close>),
  \<^verbatim>\<open>query.state.data\<close> (\<open>None\<close> is undefined), the time of its last write, whether a
  fetch is in flight, whether it has been invalidated, and the number of observers
  (subscribed views).
\<close>

record 'a query =
  queryKey :: query_key
  queryFn :: string
  state_data :: "'a cached option"
  dataUpdatedAt :: nat
  fetching :: bool
  isInvalidated :: bool
  observers :: nat

datatype http_method = GET | POST | PUT | DELETE

text \<open>Everything a mutation does that is visible outside, in the order it is done.\<close>

datatype event =
    HttpRequest http_method string
  | CancelQuery query_key
  | SetQueryData query_key
  | ToastSuccess string string
  | ToastError string "string option"
  | InvalidateQuery query_key
  | RefetchQuery query_key
  | ConsoleLog string
  | ConsoleError string

text \<open>The cache, what has been done so far, and the time (\<^verbatim>\<open>Date.now()\<close>).\<close>

record 'a world =
  queries :: "'a query list"
  events :: "event list"
  now :: nat

definition emit :: "event list \<Rightarrow> 'a world \<Rightarrow> 'a world" where
  "emit es w = w\<lparr>events := events w @ es\<rparr>"

subsection \<open>The query client operations the services call\<close>

text \<open>
  The query client is the library @tanstack/react-query; the three operations the
  services call are modelled by what the library documents for them. A filter
  \<^verbatim>\<open>{ queryKey: k }\<close> selects every query whose key starts with \<open>k\<close>.
\<close>

definition partialMatchKey :: "query_key \<Rightarrow> query_key \<Rightarrow> bool" where
  "partialMatchKey k fk = (take (length fk) k = fk)"

text \<open>\<^verbatim>\<open>cancelQueries(filter)\<close>: every matching query drops its in-flight fetch.\<close>

definition cancelQueries :: "query_key \<Rightarrow> 'a world \<Rightarrow> 'a world" where
  "cancelQueries fk w =
     emit (map (\<lambda>q. CancelQuery (queryKey q))
             (filter (\<lambda>q. partialMatchKey (queryKey q) fk) (queries w)))
       (w\<lparr>queries := map (\<lambda>q. if partialMatchKey (queryKey q) fk
                               then q\<lparr>fetching := False\<rparr> else q) (queries w)\<rparr>)"

text \<open>
  \<^verbatim>\<open>setQueriesData(filter, updater)\<close>: the updater is applied to the data of every
  matching query; a result of undefined writes nothing. A write stores the value,
  stamps the query with the time and clears its invalidation mark, also when the value
  written is the one that was there.
\<close>

definition setQueryData ::
  "('a cached option \<Rightarrow> 'a cached option) \<Rightarrow> nat \<Rightarrow> 'a query \<Rightarrow> 'a query" where
  "setQueryData updater t q =
     (case updater (state_data q) of
        None \<Rightarrow> q
      | Some d \<Rightarrow> q\<lparr>state_data := Some d, dataUpdatedAt := t, isInvalidated := False\<rparr>)"

definition setQueriesData ::
  "query_key \<Rightarrow> ('a cached option \<Rightarrow> 'a cached option) \<Rightarrow> 'a world \<Rightarrow> 'a world" where
  "setQueriesData fk updater w =
     emit (map (\<lambda>q. SetQueryData (queryKey q))
             (filter (\<lambda>q. partialMatchKey (queryKey q) fk \<and> updater (state_data q) \<noteq> None)
                (queries w)))
       (w\<lparr>queries := map (\<lambda>q. if partialMatchKey (queryKey q) fk
                               then setQueryData updater (now w) q else q) (queries w)\<rparr>)"

text \<open>
  \<^verbatim>\<open>invalidateQueries({ queryKey, predicate })\<close>: every query that matches the key and
  the predicate is marked invalidated, and those of them that have an observer are
  refetched: the query function of each is run, which sends its GET request.
\<close>

definition invalidateQueries ::
  "query_key \<Rightarrow> ('a query \<Rightarrow> bool) \<Rightarrow> 'a world \<Rightarrow> 'a world" where
  "invalidateQueries fk predicate w =
     (let hit = (\<lambda>q. partialMatchKey (queryKey q) fk \<and> predicate q) in
      emit (map (\<lambda>q. InvalidateQuery (queryKey q)) (filter hit (queries w)) @
            concat (map (\<lambda>q. [RefetchQuery (queryKey q), HttpRequest GET (queryFn q)])
              (filter (\<lambda>q. hit q \<and> 0 < observers q) (queries w))))
        (w\<lparr>queries := map (\<lambda>q. if hit q
                               then q\<lparr>isInvalidated := True,
                                      fetching := (0 < observers q \<or> fetching q)\<rparr>
                               else q) (queries w)\<rparr>))"

text \<open>The predicate every service passes: \<^verbatim>\<open>!query.state.data\<close>.\<close>

definition noData :: "'a query \<Rightarrow> bool" where
  "noData q = (state_data q = None)"

subsection \<open>Failures of the transport\<close>

text \<open>
  The error handlers read \<^verbatim>\<open>error.response?.data.message\<close>. The response is absent when
  the server was not reached, and the expression is undefined. The body of a response
  (\<^verbatim>\<open>response.data\<close>) may be null or undefined, and reading its message throws a
  TypeError; or it carries a message, or none.
\<close>

datatype response_data = NoData | Data "string option"

datatype api_error = ApiError (error_response: "response_data option")

datatype js_error = TypeError

definition error_message :: "api_error \<Rightarrow> js_error + string option" where
  "error_message e =
     (case error_response e of
        None \<Rightarrow> Inr None
      | Some NoData \<Rightarrow> Inl TypeError
      | Some (Data m) \<Rightarrow> Inr m)"

subsection \<open>A mutation: the request first, then one of the handlers\<close>

text \<open>
  A handler returns, or throws and leaves the world as it was when it threw.
\<close>

datatype 'w completion = Returned 'w | Threw 'w

text \<open>
  \<^verbatim>\<open>useMutation({ mutationFn, onSuccess, onError, onSettled })\<close> runs the mutation
  function and, when its promise has settled, the success or the error handler with
  what it produced, then the settled handler; the settled handler is not reached when
  the error handler throws.
\<close>

definition useMutation ::
  "('v \<Rightarrow> 'a world \<Rightarrow> (api_error + 'r) \<times> 'a world) \<Rightarrow>
   ('r \<Rightarrow> 'a world \<Rightarrow> 'a world) \<Rightarrow> (api_error \<Rightarrow> 'a world \<Rightarrow> 'a world completion) \<Rightarrow>
   ('a world \<Rightarrow> 'a world) \<Rightarrow> 'v \<Rightarrow> 'a world \<Rightarrow> 'a world" where
  "useMutation mutationFn onSuccess onError onSettled v w =
     (case mutationFn v w of
        (Inr r, w') \<Rightarrow> onSettled (onSuccess r w')
      | (Inl e, w') \<Rightarrow>
          (case onError e w' of
             Returned w'' \<Rightarrow> onSettled w''
           | Threw w'' \<Rightarrow> w''))"

section \<open>Product service (src/services/productService.ts)\<close>

datatype add_payload =
  AddProductPayload (add_name: string) (add_categoryIds: "int list") (add_price: jsnumber)

datatype edit_payload =
  EditProductPayload (edit_id: int) (edit_name: string) (edit_categoryIds: "int list")
    (edit_price: jsnumber)

definition products_filter :: query_key where
  "products_filter = [KString ''products'']"

text \<open>The transport is external: \<open>axios\<close> is what the server answers to a request.\<close>

definition addProduct ::
  "(add_payload \<Rightarrow> api_error + product response) \<Rightarrow> add_payload \<Rightarrow> 'a world \<Rightarrow>
   (api_error + product response) \<times> 'a world" where
  "addProduct axios payload w = (axios payload, emit [HttpRequest POST ''/api/product/add''] w)"

definition addProductUpdater ::
  "product response \<Rightarrow> product cached option \<Rightarrow> product cached option" where
  "addProductUpdater newProduct oldData =
     (case oldData of
        None \<Rightarrow> None
      | Some old \<Rightarrow>
          (case data old of
             None \<Rightarrow> Some old
           | Some xs \<Rightarrow> Some (old\<lparr>data := Some (data newProduct # xs)\<rparr>)))"

text \<open>
  \<^verbatim>\<open>toast.error("Failed", { description: error.response?.data.message })\<close>: the
  argument is evaluated first, so nothing is shown when reading the message throws.
\<close>

definition toastError :: "api_error \<Rightarrow> 'a world \<Rightarrow> 'a world completion" where
  "toastError e w =
     (case error_message e of
        Inl thrown \<Rightarrow> Threw w
      | Inr description \<Rightarrow> Returned (emit [ToastError ''Failed'' description] w))"

definition addProductOnSuccess :: "product response \<Rightarrow> product world \<Rightarrow> product world" where
  "addProductOnSuccess newProduct w =
     invalidateQueries products_filter noData
       (emit [ToastSuccess ''Success'' ''Product added successfully'']
          (setQueriesData products_filter (addProductUpdater newProduct)
             (cancelQueries products_filter w)))"

definition useMutateAddProduct ::
  "(add_payload \<Rightarrow> api_error + product response) \<Rightarrow> add_payload \<Rightarrow> product world \<Rightarrow>
   product world" where
  "useMutateAddProduct axios =
     useMutation (addProduct axios) addProductOnSuccess toastError (\<lambda>w. w)"

definition editProduct ::
  "(edit_payload \<Rightarrow> api_error + product response) \<Rightarrow> edit_payload \<Rightarrow> 'a world \<Rightarrow>
   (api_error + product response) \<times> 'a world" where
  "editProduct axios payload w = (axios payload, emit [HttpRequest PUT ''/api/product''] w)"

definition editProductUpdater ::
  "product response \<Rightarrow> product cached option \<Rightarrow> product cached option" where
  "editProductUpdater newProduct oldData =
     (case oldData of
        None \<Rightarrow> None
      | Some old \<Rightarrow>
          (case data old of
             None \<Rightarrow> Some old
           | Some xs \<Rightarrow>
               Some (old\<lparr>data := Some (map (\<lambda>product.
                 if product_id product = product_id (data newProduct)
                 then data newProduct else product) xs)\<rparr>)))"

definition editProductOnSuccess :: "product response \<Rightarrow> product world \<Rightarrow> product world" where
  "editProductOnSuccess newProduct w =
     invalidateQueries products_filter noData
       (emit [ToastSuccess ''Success'' ''Product updated successfully'']
          (setQueriesData products_filter (editProductUpdater newProduct)
             (cancelQueries products_filter w)))"

definition editProductOnError :: "api_error \<Rightarrow> 'a world \<Rightarrow> 'a world completion" where
  "editProductOnError e w = toastError e (emit [ConsoleError ''Product update failed''] w)"

definition useMutateEditProduct ::
  "(edit_payload \<Rightarrow> api_error + product response) \<Rightarrow> edit_payload \<Rightarrow> product world \<Rightarrow>
   product world" where
  "useMutateEditProduct axios =
     useMutation (editProduct axios) editProductOnSuccess editProductOnError
       (emit [ConsoleLog ''Product update mutation completed''])"

text \<open>
  \<^verbatim>\<open>deleteProduct(id)\<close> sends the id; the handler removes the products whose ids occur in
  the list the server answers with.
\<close>

definition deleteProduct ::
  "(int \<Rightarrow> api_error + product list response) \<Rightarrow> int \<Rightarrow> 'a world \<Rightarrow>
   (api_error + product list response) \<times> 'a world" where
  "deleteProduct axios ident w = (axios ident, emit [HttpRequest DELETE ''/api/product''] w)"

definition deleteProductUpdater ::
  "product list response \<Rightarrow> product cached option \<Rightarrow> product cached option" where
  "deleteProductUpdater deletedProduct oldData =
     (case oldData of
        None \<Rightarrow> None
      | Some old \<Rightarrow>
          (case data old of
             None \<Rightarrow> Some old
           | Some xs \<Rightarrow>
               (let deletedIds = map product_id (data deletedProduct) in
                Some (old\<lparr>data := Some (filter (\<lambda>product.
                  product_id product \<notin> set deletedIds) xs)\<rparr>))))"

definition deleteProductOnSuccess ::
  "product list response \<Rightarrow> product world \<Rightarrow> product world" where
  "deleteProductOnSuccess deletedProduct w =
     invalidateQueries products_filter noData
       (emit [ToastSuccess ''Success'' ''Product deleted successfully'']
          (setQueriesData products_filter (deleteProductUpdater deletedProduct)
             (cancelQueries products_filter w)))"

definition useMutateDeleteProduct ::
  "(int \<Rightarrow> api_error + product list response) \<Rightarrow> int \<Rightarrow> product world \<Rightarrow> product world" where
  "useMutateDeleteProduct axios =
     useMutation (deleteProduct axios) deleteProductOnSuccess toastError (\<lambda>w. w)"

section \<open>Category service (src/services/categoryService.ts)\<close>

definition categories_filter :: query_key where
  "categories_filter = [KString ''categories'']"

definition addCategory ::
  "(string \<Rightarrow> api_error + category list response) \<Rightarrow> string \<Rightarrow> 'a world \<Rightarrow>
   (api_error + category list response) \<times> 'a world" where
  "addCategory axios category w =
     (axios category, emit [HttpRequest POST ''/api/category/add''] w)"

definition addCategoryUpdater ::
  "category list response \<Rightarrow> category cached option \<Rightarrow> category cached option" where
  "addCategoryUpdater newCategory oldData =
     (case oldData of
        None \<Rightarrow> None
      | Some old \<Rightarrow>
          (case data old of
             None \<Rightarrow> Some old
           | Some xs \<Rightarrow> Some (old\<lparr>data := Some (xs @ data newCategory)\<rparr>)))"

definition addCategoryOnSuccess ::
  "category list response \<Rightarrow> category world \<Rightarrow> category world" where
  "addCategoryOnSuccess newCategory w =
     invalidateQueries categories_filter noData
       (setQueriesData categories_filter (addCategoryUpdater newCategory)
          (cancelQueries categories_filter w))"

definition addCategoryOnError :: "api_error \<Rightarrow> 'a world \<Rightarrow> 'a world completion" where
  "addCategoryOnError e w = Returned (emit [ConsoleLog ''error''] w)"

definition useAddCategory ::
  "(string \<Rightarrow> api_error + category list response) \<Rightarrow> string \<Rightarrow> category world \<Rightarrow>
   category world" where
  "useAddCategory axios =
     useMutation (addCategory axios) addCategoryOnSuccess addCategoryOnError (\<lambda>w. w)"

section \<open>The product form (src/components/customize/form/AddEditProductForm.tsx)\<close>

text \<open>\<^verbatim>\<open>AddProductSchema\<close>: the values the form holds.\<close>

record form_values =
  name :: string
  price :: jsnumber
  categories :: "category list"

text \<open>
  \<^verbatim>\<open>AddProductZodSchema\<close> (src/lib/schema.ts): a name of at least one character, a price
  of at least the minimum, at least one category. The minimum is 1 in one version of
  the file and 0 in the other, so it is a parameter. The schema asks for neither an
  integer nor a finite number, and Infinity is at least any minimum.
\<close>

fun numberAtLeast :: "rat \<Rightarrow> jsnumber \<Rightarrow> bool" where
  "numberAtLeast m (Finite r) = (m \<le> r)"
| "numberAtLeast m PosInfinity = True"

definition AddProductZodSchema :: "rat \<Rightarrow> form_values \<Rightarrow> bool" where
  "AddProductZodSchema priceMin v =
     (1 \<le> length (name v) \<and> numberAtLeast priceMin (price v) \<and>
      1 \<le> length (categories v))"

definition defaultValues :: "product option \<Rightarrow> form_values" where
  "defaultValues props_product =
     \<lparr>name = (case props_product of None \<Rightarrow> [] | Some p \<Rightarrow> product_name p),
      price = (case props_product of None \<Rightarrow> Finite 0 | Some p \<Rightarrow> Finite (product_price p)),
      categories = (case props_product of None \<Rightarrow> [] | Some p \<Rightarrow> product_categories p)\<rparr>"

text \<open>
  The price field: \<^verbatim>\<open>e.target.value.replace(/[^0-9]/g, "")\<close>, then 0 for the empty
  string and \<^verbatim>\<open>parseInt(value, 10)\<close> otherwise. \<^verbatim>\<open>parseInt\<close> reads the digits as a
  decimal number and returns the double nearest to it, a tie going to the even
  significand of 53 bits, and Infinity when that is \<open>2 ^ 1024\<close> or more.
\<close>

definition isDigit :: "char \<Rightarrow> bool" where
  "isDigit c = (48 \<le> (of_char c :: nat) \<and> (of_char c :: nat) \<le> 57)"

definition stripNonDigits :: "string \<Rightarrow> string" where
  "stripNonDigits s = filter isDigit s"

definition decimalValue :: "string \<Rightarrow> nat" where
  "decimalValue s = foldl (\<lambda>n c. 10 * n + (of_char c - 48)) 0 s"

fun bitLength :: "nat \<Rightarrow> nat" where
  "bitLength n = (if n = 0 then 0 else Suc (bitLength (n div 2)))"

definition toNumber :: "nat \<Rightarrow> jsnumber" where
  "toNumber n =
     (let e = bitLength n - 53;
          q = n div 2 ^ e;
          r = n mod 2 ^ e;
          q' = (if 2 ^ e < 2 * r \<or> (2 * r = 2 ^ e \<and> odd q) then q + 1 else q);
          m = q' * 2 ^ e
      in if m < 2 ^ 1024 then Finite (of_nat m) else PosInfinity)"

definition parseInt10 :: "string \<Rightarrow> jsnumber" where
  "parseInt10 s = toNumber (decimalValue s)"

definition priceFromInput :: "string \<Rightarrow> jsnumber" where
  "priceFromInput s =
     (let v = stripNonDigits s in if v = [] then Finite 0 else parseInt10 v)"

datatype form_event =
    NameChange string
  | PriceChange string
  | CategoriesChange "category list"

fun fieldOnChange :: "form_values \<Rightarrow> form_event \<Rightarrow> form_values" where
  "fieldOnChange v (NameChange s) = v\<lparr>name := s\<rparr>"
| "fieldOnChange v (PriceChange s) = v\<lparr>price := priceFromInput s\<rparr>"
| "fieldOnChange v (CategoriesChange cs) = v\<lparr>categories := cs\<rparr>"

text \<open>The values of a form opened on \<open>props_product\<close> after a sequence of inputs.\<close>

definition formAfter :: "product option \<Rightarrow> form_event list \<Rightarrow> form_values" where
  "formAfter props_product evs = foldl fieldOnChange (defaultValues props_product) evs"

datatype submission =
    NotSubmitted
  | EditProductCall edit_payload
  | AddProductCall add_payload

definition onSubmit :: "rat \<Rightarrow> product option \<Rightarrow> form_values \<Rightarrow> submission" where
  "onSubmit priceMin props_product v =
     (if \<not> AddProductZodSchema priceMin v then NotSubmitted
      else case props_product of
        Some p \<Rightarrow>
          EditProductCall
            (EditProductPayload (product_id p) (name v) (map category_id (categories v))
               (price v))
      | None \<Rightarrow>
          AddProductCall
            (AddProductPayload (name v) (map category_id (categories v)) (price v)))"

fun isNonNegInteger :: "jsnumber \<Rightarrow> bool" where
  "isNonNegInteger (Finite r) = (0 \<le> r \<and> of_int (floor r) = r)"
| "isNonNegInteger PosInfinity = False"

section \<open>Observing a run\<close>

text \<open>The events a run adds to the ones already there.\<close>

definition eventsOf :: "('a world \<Rightarrow> 'a world) \<Rightarrow> 'a world \<Rightarrow> event list" where
  "eventsOf run w = drop (length (events w)) (events (run w))"

text \<open>The request of a mutation: any request that is not the GET of a fetch.\<close>

fun isMutationRequest :: "event \<Rightarrow> bool" where
  "isMutationRequest (HttpRequest m p) = (m \<noteq> GET)"
| "isMutationRequest e = False"

fun isSetQueryData :: "event \<Rightarrow> bool" where
  "isSetQueryData (SetQueryData k) = True"
| "isSetQueryData e = False"


fun isToast :: "event \<Rightarrow> bool" where
  "isToast (ToastSuccess t d) = True"
| "isToast (ToastError t d) = True"
| "isToast e = False"

text \<open>Some event satisfying \<open>P\<close> occurs strictly before some event satisfying \<open>Q\<close>.\<close>

fun occursBefore :: "(event \<Rightarrow> bool) \<Rightarrow> (event \<Rightarrow> bool) \<Rightarrow> event list \<Rightarrow> bool" where
  "occursBefore P Q [] = False"
| "occursBefore P Q (e # es) = (if P e then list_ex Q es else occursBefore P Q es)"

text \<open>Whether a cached value holds list data.\<close>

definition hasData :: "'a cached option \<Rightarrow> bool" where
  "hasData d = (case d of None \<Rightarrow> False | Some r \<Rightarrow> data r \<noteq> None)"

section \<open>Example inputs\<close>

definition exP1 :: product where "exP1 = Product 1 ''Pen'' 10 []"
definition exP5 :: product where "exP5 = Product 5 ''Old'' 20 []"
definition exP5new :: product where "exP5new = Product 5 ''New'' 25 [Category 2 ''office'']"
definition exP7 :: product where "exP7 = Product 7 ''Cup'' 30 [Category 2 ''office'']"
definition exP9 :: product where "exP9 = Product 9 ''Ink'' 5 []"

definition exResponse :: "'d \<Rightarrow> 'd response" where
  "exResponse d = \<lparr>data = d, message = ''ok'', status = StatusSuccess\<rparr>"

definition exKeyAll :: query_key where
  "exKeyAll = [KString ''products'', KUndefined, KString []]"

definition exKeyCat2 :: query_key where
  "exKeyCat2 = [KString ''products'', KNumbers [2], KString []]"

definition exKeyCat3 :: query_key where
  "exKeyCat3 = [KString ''products'', KNumbers [3], KString []]"

text \<open>
  Three product queries: all products (a fetch in flight), the filter on category 2,
  and a subscribed filter on category 3 that has no data yet.
\<close>

definition exWorld :: "product world" where
  "exWorld =
     \<lparr>queries =
        [\<lparr>queryKey = exKeyAll, queryFn = ''/api/products'',
          state_data = Some (exResponse (Some [exP1, exP5, exP7])), dataUpdatedAt = 100,
          fetching = True, isInvalidated = False, observers = 1\<rparr>,
         \<lparr>queryKey = exKeyCat2, queryFn = ''/api/products'',
          state_data = Some (exResponse (Some [exP5, exP7])), dataUpdatedAt = 200,
          fetching = False, isInvalidated = False, observers = 0\<rparr>,
         \<lparr>queryKey = exKeyCat3, queryFn = ''/api/products'',
          state_data = None, dataUpdatedAt = 0,
          fetching = False, isInvalidated = False, observers = 1\<rparr>],
      events = [], now = 1000\<rparr>"

definition exC1 :: category where "exC1 = Category 1 ''home''"
definition exC2 :: category where "exC2 = Category 2 ''office''"

definition exCategoryWorld :: "category world" where
  "exCategoryWorld =
     \<lparr>queries =
        [\<lparr>queryKey = [KString ''categories''], queryFn = ''/api/categories'',
          state_data = Some (exResponse (Some [exC1])), dataUpdatedAt = 100,
          fetching = False, isInvalidated = False, observers = 2\<rparr>],
      events = [], now = 1000\<rparr>"

definition exAddPayload :: add_payload where
  "exAddPayload = AddProductPayload ''Ink'' [] (Finite 5)"

definition exEditPayload :: edit_payload where
  "exEditPayload = EditProductPayload 5 ''New'' [2] (Finite 25)"

text \<open>Servers that accept, and a server that refuses with a message.\<close>

definition exAddOk :: "add_payload \<Rightarrow> api_error + product response" where
  "exAddOk payload = Inr (exResponse exP9)"

definition exEditOk :: "edit_payload \<Rightarrow> api_error + product response" where
  "exEditOk payload = Inr (exResponse exP5new)"

definition exDeleteOk :: "int \<Rightarrow> api_error + product list response" where
  "exDeleteOk ident = Inr (exResponse [Product ident [] 0 []])"

text \<open>
  A server that answers a deletion with the products that remain, as the description
  of \<^verbatim>\<open>deleteProduct\<close> has it.
\<close>

definition exDeleteRemaining :: "int \<Rightarrow> api_error + product list response" where
  "exDeleteRemaining ident = Inr (exResponse [exP1, exP5])"

definition exCategoryOk :: "string \<Rightarrow> api_error + category list response" where
  "exCategoryOk category = Inr (exResponse [exC2])"

definition exRefuse :: "'v \<Rightarrow> api_error + 'r" where
  "exRefuse v = Inl (ApiError (Some (Data (Some ''Product already exists''))))"

text \<open>
  A server that cannot be reached, and one that refuses with a response that has no
  body.
\<close>

definition exUnreachable :: "'v \<Rightarrow> api_error + 'r" where
  "exUnreachable v = Inl (ApiError None)"

definition exRefuseNoBody :: "'v \<Rightarrow> api_error + 'r" where
  "exRefuseNoBody v = Inl (ApiError (Some NoData))"

text \<open>
  A cache whose one products query holds a response without a data field and is marked
  invalidated.
\<close>

definition exWorldNoDataField :: "product world" where
  "exWorldNoDataField =
     \<lparr>queries =
        [\<lparr>queryKey = exKeyAll, queryFn = ''/api/products'',
          state_data = Some (exResponse None), dataUpdatedAt = 100,
          fetching = False, isInvalidated = True, observers = 1\<rparr>],
      events = [], now = 1000\<rparr>"

text \<open>A digit string pasted into the price field: 2 followed by 308 zeros.\<close>

definition exHugeInput :: string where
  "exHugeInput = CHR ''2'' # replicate 308 (CHR ''0'')"

text \<open>The categories query while its first fetch has not produced a value yet.\<close>

definition exCategoryWorldLoading :: "category world" where
  "exCategoryWorldLoading =
     \<lparr>queries =
        [\<lparr>queryKey = [KString ''categories''], queryFn = ''/api/categories'',
          state_data = None, dataUpdatedAt = 0,
          fetching = True, isInvalidated = False, observers = 2\<rparr>],
      events = [], now = 1000\<rparr>"

text \<open>A product as the server may hold it, with a price that is not a whole number.\<close>

definition exP19 :: product where
  "exP19 = Product 1 ''Pen'' (1999 / 100) [Category 1 ''home'']"

section \<open>Properties of a settlement\<close>

text \<open>
  The events of a success handler on the queries \<open>qs\<close>: the matching queries are
  cancelled, those of them that hold a value are written, the handler's own events
  \<open>es\<close> follow, then the matching queries without a value are invalidated and the
  observed ones of these are refetched, each with the request of its query function.
\<close>

definition settlementEvents :: "query_key \<Rightarrow> event list \<Rightarrow> 'a query list \<Rightarrow> event list" where
  "settlementEvents fk es qs =
     map (\<lambda>q. CancelQuery (queryKey q)) (filter (\<lambda>q. partialMatchKey (queryKey q) fk) qs) @
     map (\<lambda>q. SetQueryData (queryKey q))
       (filter (\<lambda>q. partialMatchKey (queryKey q) fk \<and> state_data q \<noteq> None) qs) @
     es @
     map (\<lambda>q. InvalidateQuery (queryKey q))
       (filter (\<lambda>q. partialMatchKey (queryKey q) fk \<and> state_data q = None) qs) @
     concat (map (\<lambda>q. [RefetchQuery (queryKey q), HttpRequest GET (queryFn q)])
       (filter (\<lambda>q. partialMatchKey (queryKey q) fk \<and> state_data q = None \<and> 0 < observers q)
          qs))"

text \<open>
  The invalidation policy, for a query \<open>q\<close> before a run, the same query \<open>q'\<close> after
  it and the events \<open>evs\<close> of the run. A query that holds a value afterwards is
  neither invalidated nor refetched: no such event names its key; when the filter
  selects it, it is left with no fetch in flight and not marked invalidated, and
  otherwise it is as it was. A selected query without a value is marked invalidated;
  when it is observed it is also refetched, with the request of its query function.
\<close>

definition invalidatedOnlyWithoutData ::
  "query_key \<Rightarrow> 'a query \<Rightarrow> 'a query \<Rightarrow> event list \<Rightarrow> bool" where
  "invalidatedOnlyWithoutData fk q q' evs =
     ((state_data q' \<noteq> None \<longrightarrow>
         InvalidateQuery (queryKey q) \<notin> set evs \<and> RefetchQuery (queryKey q) \<notin> set evs \<and>
         (partialMatchKey (queryKey q) fk \<longrightarrow> \<not> isInvalidated q' \<and> \<not> fetching q') \<and>
         (\<not> partialMatchKey (queryKey q) fk \<longrightarrow> q' = q)) \<and>
      (partialMatchKey (queryKey q) fk \<and> state_data q' = None \<longrightarrow>
         isInvalidated q' \<and> InvalidateQuery (queryKey q) \<in> set evs) \<and>
      (partialMatchKey (queryKey q) fk \<and> state_data q' = None \<and> 0 < observers q \<longrightarrow>
         fetching q' \<and> RefetchQuery (queryKey q) \<in> set evs \<and>
         HttpRequest GET (queryFn q) \<in> set evs))"


declare bitLength.simps [simp del]

section \<open>The query client operations, step by step\<close>

lemma emit_simps:
  "events (emit es w) = events w @ es" "queries (emit es w) = queries w"
  "now (emit es w) = now w"
  by (simp_all add: emit_def)

lemma eventsOf_eq: "events (run w) = events w @ es \<Longrightarrow> eventsOf run w = es"
  by (simp add: eventsOf_def)

lemma updater_None_iff:
  "(addProductUpdater r x = None) = (x = None)"
  "(editProductUpdater r x = None) = (x = None)"
  "(deleteProductUpdater rs x = None) = (x = None)"
  "(addCategoryUpdater cs y = None) = (y = None)"
  by (simp_all add: addProductUpdater_def editProductUpdater_def deleteProductUpdater_def
      addCategoryUpdater_def Let_def split: option.splits)

lemma setQueryData_simps:
  "queryKey (setQueryData u t q) = queryKey q"
  "queryFn (setQueryData u t q) = queryFn q"
  "observers (setQueryData u t q) = observers q"
  "fetching (setQueryData u t q) = fetching q"
  "state_data (setQueryData u t q) =
     (case u (state_data q) of None \<Rightarrow> state_data q | Some d \<Rightarrow> Some d)"
  by (simp_all add: setQueryData_def split: option.splits)

lemma events_cancelQueries:
  "events (cancelQueries fk w) = events w @
     map (\<lambda>q. CancelQuery (queryKey q))
       (filter (\<lambda>q. partialMatchKey (queryKey q) fk) (queries w))"
  by (simp add: cancelQueries_def emit_def)

lemma events_setQueriesData:
  "events (setQueriesData fk u w) = events w @
     map (\<lambda>q. SetQueryData (queryKey q))
       (filter (\<lambda>q. partialMatchKey (queryKey q) fk \<and> u (state_data q) \<noteq> None) (queries w))"
  by (simp add: setQueriesData_def emit_def)

lemma events_invalidateQueries:
  "events (invalidateQueries fk noData w) = events w @
     map (\<lambda>q. InvalidateQuery (queryKey q))
       (filter (\<lambda>q. partialMatchKey (queryKey q) fk \<and> state_data q = None) (queries w)) @
     concat (map (\<lambda>q. [RefetchQuery (queryKey q), HttpRequest GET (queryFn q)])
       (filter (\<lambda>q. partialMatchKey (queryKey q) fk \<and> state_data q = None \<and> 0 < observers q)
          (queries w)))"
  by (simp add: invalidateQueries_def emit_def Let_def noData_def)

lemma queries_cancelQueries:
  "queries (cancelQueries fk w) =
     map (\<lambda>q. if partialMatchKey (queryKey q) fk then q\<lparr>fetching := False\<rparr> else q)
       (queries w)"
  by (simp add: cancelQueries_def emit_def)

lemma queries_setQueriesData:
  "queries (setQueriesData fk u w) =
     map (\<lambda>q. if partialMatchKey (queryKey q) fk then setQueryData u (now w) q else q)
       (queries w)"
  by (simp add: setQueriesData_def emit_def)

text \<open>
  The success handlers all have one shape: cancel, write, some events of their own
  (\<open>g\<close>), invalidate. These lemmas describe that composition once.
\<close>

lemma length_settle:
  assumes "\<And>w. queries (g w) = queries w"
  shows "length (queries (invalidateQueries fk noData
           (g (setQueriesData fk u (cancelQueries fk w))))) = length (queries w)"
  by (simp add: invalidateQueries_def setQueriesData_def cancelQueries_def emit_def Let_def
      assms)

lemma nth_settle:
  assumes g: "\<And>w. queries (g w) = queries w" and u: "\<And>x. (u x = None) = (x = None)"
    and i: "i < length (queries w)"
  shows "queries (invalidateQueries fk noData
           (g (setQueriesData fk u (cancelQueries fk w)))) ! i =
    (let q = queries w ! i in
     if partialMatchKey (queryKey q) fk
     then (case state_data q of
             None \<Rightarrow> q\<lparr>fetching := 0 < observers q, isInvalidated := True\<rparr>
           | Some d \<Rightarrow> q\<lparr>state_data := u (Some d), dataUpdatedAt := now w,
                         fetching := False, isInvalidated := False\<rparr>)
     else q)"
proof -
  have u': "u (Some d) \<noteq> None" for d
    using u[of "Some d"] by simp
  show ?thesis
    using i u[of None]
    by (auto simp add: invalidateQueries_def setQueriesData_def cancelQueries_def emit_def
        Let_def g setQueryData_def noData_def u' split: option.splits)
qed

lemma events_settle:
  assumes g: "\<And>w. queries (g w) = queries w" "\<And>w. events (g w) = events w @ es"
    and u: "\<And>x. (u x = None) = (x = None)"
  shows "events (invalidateQueries fk noData (g (setQueriesData fk u (cancelQueries fk w)))) =
    events w @ settlementEvents fk es (queries w)"
proof -
  have k: "queryKey (if c then q\<lparr>fetching := False\<rparr> else q) = queryKey q"
    and f: "queryFn (if c then q\<lparr>fetching := False\<rparr> else q) = queryFn q"
    and d: "state_data (if c then q\<lparr>fetching := False\<rparr> else q) = state_data q"
    and ob: "observers (if c then q\<lparr>fetching := False\<rparr> else q) = observers q"
    for c and q :: "'a query"
    by simp_all
  have k2: "queryKey (if c then setQueryData u t q else q) = queryKey q"
    and f2: "queryFn (if c then setQueryData u t q else q) = queryFn q"
    and ob2: "observers (if c then setQueryData u t q else q) = observers q"
    and d2: "(state_data (if c then setQueryData u t q else q) = None) = (state_data q = None)"
    for c t and q :: "'a query"
    using u[of "state_data q"] by (auto simp add: setQueryData_simps split: option.splits)
  show ?thesis
    by (simp add: events_invalidateQueries g events_setQueriesData events_cancelQueries
        queries_setQueriesData queries_cancelQueries filter_map o_def k f d ob k2 f2 ob2 d2 u
        settlementEvents_def map_concat)
qed

subsection \<open>The events and the queries of each mutation\<close>

lemma eventsOf_useMutateAddProduct:
  "eventsOf (useMutateAddProduct axios v) w =
     HttpRequest POST ''/api/product/add'' #
     (case axios v of
        Inl e \<Rightarrow>
          (case error_message e of
             Inl thrown \<Rightarrow> []
           | Inr description \<Rightarrow> [ToastError ''Failed'' description])
      | Inr r \<Rightarrow> settlementEvents products_filter
                 [ToastSuccess ''Success'' ''Product added successfully''] (queries w))"
proof (cases "axios v")
  case (Inl e)
  then show ?thesis
    by (simp add: eventsOf_def useMutateAddProduct_def useMutation_def addProduct_def
        toastError_def emit_simps split: sum.splits)
next
  case (Inr r)
  have "events (useMutateAddProduct axios v w) =
      events (emit [HttpRequest POST ''/api/product/add''] w) @
      settlementEvents products_filter
        [ToastSuccess ''Success'' ''Product added successfully'']
        (queries (emit [HttpRequest POST ''/api/product/add''] w))"
    unfolding useMutateAddProduct_def useMutation_def addProduct_def addProductOnSuccess_def
    using Inr by (simp add: events_settle emit_simps updater_None_iff)
  then show ?thesis
    using Inr by (simp add: eventsOf_def emit_simps)
qed

lemma eventsOf_useMutateEditProduct:
  "eventsOf (useMutateEditProduct axios v) w =
     HttpRequest PUT ''/api/product'' #
     (case axios v of
        Inl e \<Rightarrow>
          ConsoleError ''Product update failed'' #
          (case error_message e of
             Inl thrown \<Rightarrow> []
           | Inr description \<Rightarrow>
               [ToastError ''Failed'' description,
                ConsoleLog ''Product update mutation completed''])
      | Inr r \<Rightarrow> settlementEvents products_filter
                 [ToastSuccess ''Success'' ''Product updated successfully''] (queries w) @
               [ConsoleLog ''Product update mutation completed''])"
proof (cases "axios v")
  case (Inl e)
  then show ?thesis
    by (simp add: eventsOf_def useMutateEditProduct_def useMutation_def editProduct_def
        editProductOnError_def toastError_def emit_simps split: sum.splits)
next
  case (Inr r)
  have "events (editProductOnSuccess r (emit [HttpRequest PUT ''/api/product''] w)) =
      events (emit [HttpRequest PUT ''/api/product''] w) @
      settlementEvents products_filter
        [ToastSuccess ''Success'' ''Product updated successfully'']
        (queries (emit [HttpRequest PUT ''/api/product''] w))"
    unfolding editProductOnSuccess_def
    by (simp add: events_settle emit_simps updater_None_iff)
  then show ?thesis
    using Inr
    by (simp add: eventsOf_def useMutateEditProduct_def useMutation_def editProduct_def
        emit_simps)
qed

lemma eventsOf_useMutateDeleteProduct:
  "eventsOf (useMutateDeleteProduct axios v) w =
     HttpRequest DELETE ''/api/product'' #
     (case axios v of
        Inl e \<Rightarrow>
          (case error_message e of
             Inl thrown \<Rightarrow> []
           | Inr description \<Rightarrow> [ToastError ''Failed'' description])
      | Inr r \<Rightarrow> settlementEvents products_filter
                 [ToastSuccess ''Success'' ''Product deleted successfully''] (queries w))"
proof (cases "axios v")
  case (Inl e)
  then show ?thesis
    by (simp add: eventsOf_def useMutateDeleteProduct_def useMutation_def deleteProduct_def
        toastError_def emit_simps split: sum.splits)
next
  case (Inr r)
  have "events (deleteProductOnSuccess r (emit [HttpRequest DELETE ''/api/product''] w)) =
      events (emit [HttpRequest DELETE ''/api/product''] w) @
      settlementEvents products_filter
        [ToastSuccess ''Success'' ''Product deleted successfully'']
        (queries (emit [HttpRequest DELETE ''/api/product''] w))"
    unfolding deleteProductOnSuccess_def
    by (simp add: events_settle emit_simps updater_None_iff)
  then show ?thesis
    using Inr
    by (simp add: eventsOf_def useMutateDeleteProduct_def useMutation_def deleteProduct_def
        emit_simps)
qed

lemma eventsOf_useAddCategory:
  "eventsOf (useAddCategory axios v) w =
     HttpRequest POST ''/api/category/add'' #
     (case axios v of
        Inl e \<Rightarrow> [ConsoleLog ''error'']
      | Inr r \<Rightarrow> settlementEvents categories_filter [] (queries w))"
proof (cases "axios v")
  case (Inl e)
  then show ?thesis
    by (simp add: eventsOf_def useAddCategory_def useMutation_def addCategory_def
        addCategoryOnError_def emit_simps)
next
  case (Inr r)
  have "events (addCategoryOnSuccess r (emit [HttpRequest POST ''/api/category/add''] w)) =
      events (emit [HttpRequest POST ''/api/category/add''] w) @
      settlementEvents categories_filter []
        (queries (emit [HttpRequest POST ''/api/category/add''] w))"
    unfolding addCategoryOnSuccess_def
    using events_settle[where g = "\<lambda>w. w" and es = "[]" and u = "addCategoryUpdater r"]
    by (simp add: updater_None_iff)
  then show ?thesis
    using Inr
    by (simp add: eventsOf_def useAddCategory_def useMutation_def addCategory_def emit_simps)
qed

lemma queries_on_failure:
  "isl (axiosA pa) \<Longrightarrow> queries (useMutateAddProduct axiosA pa w) = queries w"
  "isl (axiosE pe) \<Longrightarrow> queries (useMutateEditProduct axiosE pe w) = queries w"
  "isl (axiosD pd) \<Longrightarrow> queries (useMutateDeleteProduct axiosD pd w) = queries w"
  "isl (axiosC pc) \<Longrightarrow> queries (useAddCategory axiosC pc wc) = queries wc"
  by (auto simp add: useMutateAddProduct_def useMutateEditProduct_def
      useMutateDeleteProduct_def useAddCategory_def useMutation_def addProduct_def
      editProduct_def deleteProduct_def addCategory_def toastError_def editProductOnError_def
      addCategoryOnError_def emit_simps isl_def split: sum.splits)

lemma length_queries_run:
  "length (queries (useMutateAddProduct axiosA pa w)) = length (queries w)"
  "length (queries (useMutateEditProduct axiosE pe w)) = length (queries w)"
  "length (queries (useMutateDeleteProduct axiosD pd w)) = length (queries w)"
  "length (queries (useAddCategory axiosC pc wc)) = length (queries wc)"
  by (simp_all add: useMutateAddProduct_def useMutateEditProduct_def
      useMutateDeleteProduct_def useAddCategory_def useMutation_def addProduct_def
      editProduct_def deleteProduct_def addCategory_def toastError_def editProductOnError_def
      addCategoryOnError_def emit_simps addProductOnSuccess_def editProductOnSuccess_def
      deleteProductOnSuccess_def addCategoryOnSuccess_def length_settle
      length_settle[where g = "\<lambda>w. w", simplified] split: sum.splits)

lemma nth_queries_useMutateAddProduct:
  assumes "axios v = Inr r" "i < length (queries w)"
  shows "queries (useMutateAddProduct axios v w) ! i =
    (let q = queries w ! i in
     if partialMatchKey (queryKey q) products_filter
     then (case state_data q of
             None \<Rightarrow> q\<lparr>fetching := 0 < observers q, isInvalidated := True\<rparr>
           | Some d \<Rightarrow> q\<lparr>state_data := addProductUpdater r (Some d), dataUpdatedAt := now w,
                         fetching := False, isInvalidated := False\<rparr>)
     else q)"
  using assms
    nth_settle[where g = "emit [ToastSuccess ''Success'' ''Product added successfully'']"
      and u = "addProductUpdater r" and fk = products_filter
      and w = "emit [HttpRequest POST ''/api/product/add''] w" and i = i]
  by (simp add: useMutateAddProduct_def useMutation_def addProduct_def addProductOnSuccess_def
      emit_simps updater_None_iff Let_def cong: option.case_cong)

lemma nth_queries_useMutateEditProduct:
  assumes "axios v = Inr r" "i < length (queries w)"
  shows "queries (useMutateEditProduct axios v w) ! i =
    (let q = queries w ! i in
     if partialMatchKey (queryKey q) products_filter
     then (case state_data q of
             None \<Rightarrow> q\<lparr>fetching := 0 < observers q, isInvalidated := True\<rparr>
           | Some d \<Rightarrow> q\<lparr>state_data := editProductUpdater r (Some d), dataUpdatedAt := now w,
                         fetching := False, isInvalidated := False\<rparr>)
     else q)"
  using assms
    nth_settle[where g = "emit [ToastSuccess ''Success'' ''Product updated successfully'']"
      and u = "editProductUpdater r" and fk = products_filter
      and w = "emit [HttpRequest PUT ''/api/product''] w" and i = i]
  by (simp add: useMutateEditProduct_def useMutation_def editProduct_def
      editProductOnSuccess_def emit_simps updater_None_iff Let_def cong: option.case_cong)

lemma nth_queries_useMutateDeleteProduct:
  assumes "axios v = Inr r" "i < length (queries w)"
  shows "queries (useMutateDeleteProduct axios v w) ! i =
    (let q = queries w ! i in
     if partialMatchKey (queryKey q) products_filter
     then (case state_data q of
             None \<Rightarrow> q\<lparr>fetching := 0 < observers q, isInvalidated := True\<rparr>
           | Some d \<Rightarrow> q\<lparr>state_data := deleteProductUpdater r (Some d), dataUpdatedAt := now w,
                         fetching := False, isInvalidated := False\<rparr>)
     else q)"
  using assms
    nth_settle[where g = "emit [ToastSuccess ''Success'' ''Product deleted successfully'']"
      and u = "deleteProductUpdater r" and fk = products_filter
      and w = "emit [HttpRequest DELETE ''/api/product''] w" and i = i]
  by (simp add: useMutateDeleteProduct_def useMutation_def deleteProduct_def
      deleteProductOnSuccess_def emit_simps updater_None_iff Let_def cong: option.case_cong)

lemma nth_queries_useAddCategory:
  assumes "axios v = Inr r" "i < length (queries w)"
  shows "queries (useAddCategory axios v w) ! i =
    (let q = queries w ! i in
     if partialMatchKey (queryKey q) categories_filter
     then (case state_data q of
             None \<Rightarrow> q\<lparr>fetching := 0 < observers q, isInvalidated := True\<rparr>
           | Some d \<Rightarrow> q\<lparr>state_data := addCategoryUpdater r (Some d), dataUpdatedAt := now w,
                         fetching := False, isInvalidated := False\<rparr>)
     else q)"
  using assms
    nth_settle[where g = "\<lambda>w. w" and u = "addCategoryUpdater r" and fk = categories_filter
      and w = "emit [HttpRequest POST ''/api/category/add''] w" and i = i]
  by (simp add: useAddCategory_def useMutation_def addCategory_def addCategoryOnSuccess_def
      emit_simps updater_None_iff Let_def cong: option.case_cong)

subsection \<open>Facts about the events of a settlement\<close>

lemma filter_isToast_refetches:
  "filter isToast (concat (map (\<lambda>q. [RefetchQuery (f q), HttpRequest GET (g q)]) qs)) = []"
  by (induction qs) simp_all

lemma filter_isToast_settlementEvents:
  "filter isToast (settlementEvents fk es qs) = filter isToast es"
  by (simp add: settlementEvents_def filter_map o_def filter_isToast_refetches)

lemma occursBefore_iff:
  "occursBefore P Q es = (\<exists>pre e post. es = pre @ e # post \<and> P e \<and> list_ex Q post)"
proof (induction es)
  case Nil
  then show ?case by simp
next
  case (Cons a es)
  show ?case
  proof (cases "P a")
    case True
    have "\<exists>pre e post. a # es = pre @ e # post \<and> P e \<and> list_ex Q post"
      if "list_ex Q es"
      using that True by (intro exI[of _ "[]"] exI[of _ a] exI[of _ es]) simp
    moreover have "list_ex Q es"
      if "a # es = pre @ e # post" "list_ex Q post" for pre e post
      using that by (cases pre) (auto simp add: list_ex_iff)
    ultimately show ?thesis
      using True by auto
  next
    case False
    have "(\<exists>pre e post. a # es = pre @ e # post \<and> P e \<and> list_ex Q post) =
          (\<exists>pre e post. es = pre @ e # post \<and> P e \<and> list_ex Q post)"
    proof
      assume "\<exists>pre e post. a # es = pre @ e # post \<and> P e \<and> list_ex Q post"
      then obtain pre e post where h: "a # es = pre @ e # post" "P e" "list_ex Q post"
        by blast
      with False obtain pre' where "pre = a # pre'"
        by (cases pre) auto
      with h show "\<exists>pre e post. es = pre @ e # post \<and> P e \<and> list_ex Q post"
        by auto
    next
      assume "\<exists>pre e post. es = pre @ e # post \<and> P e \<and> list_ex Q post"
      then obtain pre e post where "es = pre @ e # post" "P e" "list_ex Q post"
        by blast
      then have "a # es = (a # pre) @ e # post \<and> P e \<and> list_ex Q post"
        by simp
      then show "\<exists>pre e post. a # es = pre @ e # post \<and> P e \<and> list_ex Q post"
        by blast
    qed
    with False Cons.IH show ?thesis by simp
  qed
qed







lemma Invalidate_in_settlementEvents:
  "(InvalidateQuery k \<in> set (settlementEvents fk es qs)) =
   (InvalidateQuery k \<in> set es \<or>
    (\<exists>q\<in>set qs. queryKey q = k \<and> partialMatchKey k fk \<and> state_data q = None))"
  by (auto simp add: settlementEvents_def)

lemma Refetch_in_settlementEvents:
  "(RefetchQuery k \<in> set (settlementEvents fk es qs)) =
   (RefetchQuery k \<in> set es \<or>
    (\<exists>q\<in>set qs. queryKey q = k \<and> partialMatchKey k fk \<and> state_data q = None \<and>
       0 < observers q))"
  by (auto simp add: settlementEvents_def)

lemma Get_in_settlementEvents:
  "(HttpRequest GET p \<in> set (settlementEvents fk es qs)) =
   (HttpRequest GET p \<in> set es \<or>
    (\<exists>q\<in>set qs. queryFn q = p \<and> partialMatchKey (queryKey q) fk \<and> state_data q = None \<and>
       0 < observers q))"
  by (auto simp add: settlementEvents_def)

lemma same_key_same_query:
  assumes "distinct (map queryKey qs)" "q \<in> set qs" "q2 \<in> set qs" "queryKey q = queryKey q2"
  shows "q = q2"
  using assms by (meson distinct_map inj_onD)

lemma policy_settle:
  assumes i: "i < length qs" and dist: "distinct (map queryKey qs)"
    and q': "q' = (let q = qs ! i in
       if partialMatchKey (queryKey q) fk
       then (case state_data q of
               None \<Rightarrow> q\<lparr>fetching := 0 < observers q, isInvalidated := True\<rparr>
             | Some d \<Rightarrow> q\<lparr>state_data := u (Some d), dataUpdatedAt := t,
                           fetching := False, isInvalidated := False\<rparr>)
       else q)"
    and u: "\<And>x. (u x = None) = (x = None)"
    and inv: "\<And>k. (InvalidateQuery k \<in> set evs) =
       (\<exists>q\<in>set qs. queryKey q = k \<and> partialMatchKey k fk \<and> state_data q = None)"
    and ref: "\<And>k. (RefetchQuery k \<in> set evs) =
       (\<exists>q\<in>set qs. queryKey q = k \<and> partialMatchKey k fk \<and> state_data q = None \<and>
          0 < observers q)"
    and get: "\<And>p. (HttpRequest GET p \<in> set evs) =
       (\<exists>q\<in>set qs. queryFn q = p \<and> partialMatchKey (queryKey q) fk \<and> state_data q = None \<and>
          0 < observers q)"
  shows "invalidatedOnlyWithoutData fk (qs ! i) q' evs"
proof -
  let ?q = "qs ! i"
  have mem: "?q \<in> set qs"
    using i by simp
  have only: "q2 = ?q" if "q2 \<in> set qs" "queryKey q2 = queryKey ?q" for q2
    using same_key_same_query[OF dist that(1) mem that(2)] .
  have u': "u (Some d) \<noteq> None" for d
    using u[of "Some d"] by simp
  have none_iff: "(state_data q' = None) = (state_data ?q = None)"
    using u' by (auto simp add: q' Let_def split: option.splits)
  have a: "InvalidateQuery (queryKey ?q) \<notin> set evs \<and> RefetchQuery (queryKey ?q) \<notin> set evs \<and>
      (partialMatchKey (queryKey ?q) fk \<longrightarrow> \<not> isInvalidated q' \<and> \<not> fetching q') \<and>
      (\<not> partialMatchKey (queryKey ?q) fk \<longrightarrow> q' = ?q)"
    if "state_data q' \<noteq> None"
  proof -
    from that have d: "state_data ?q \<noteq> None"
      by (simp add: none_iff)
    have "InvalidateQuery (queryKey ?q) \<notin> set evs" "RefetchQuery (queryKey ?q) \<notin> set evs"
      using d only by (auto simp add: inv ref)
    moreover have "partialMatchKey (queryKey ?q) fk \<longrightarrow> \<not> isInvalidated q' \<and> \<not> fetching q'"
      "\<not> partialMatchKey (queryKey ?q) fk \<longrightarrow> q' = ?q"
      using d by (auto simp add: q' Let_def split: option.splits)
    ultimately show ?thesis by simp
  qed
  have b: "isInvalidated q' \<and> InvalidateQuery (queryKey ?q) \<in> set evs"
    if "partialMatchKey (queryKey ?q) fk" "state_data q' = None"
  proof -
    from that(2) have "state_data ?q = None"
      by (simp add: none_iff)
    with that(1) mem show ?thesis
      by (auto simp add: inv q' Let_def)
  qed
  have c: "fetching q' \<and> RefetchQuery (queryKey ?q) \<in> set evs \<and>
      HttpRequest GET (queryFn ?q) \<in> set evs"
    if "partialMatchKey (queryKey ?q) fk" "state_data q' = None" "0 < observers ?q"
  proof -
    from that(2) have "state_data ?q = None"
      by (simp add: none_iff)
    with that(1,3) mem show ?thesis
      by (auto simp add: ref get q' Let_def)
  qed
  show ?thesis
    unfolding invalidatedOnlyWithoutData_def using a b c by blast
qed

lemma policy_useMutateAddProduct:
  assumes "axios v = Inr r" "i < length (queries w)" "distinct (map queryKey (queries w))"
  shows "invalidatedOnlyWithoutData products_filter (queries w ! i)
           (queries (useMutateAddProduct axios v w) ! i)
           (eventsOf (useMutateAddProduct axios v) w)"
proof -
  note q' = nth_queries_useMutateAddProduct[of axios v r i w, OF assms(1,2)]
  show ?thesis
    by (rule policy_settle[where u = "addProductUpdater r", OF assms(2,3) q'])
      (simp_all add: updater_None_iff eventsOf_useMutateAddProduct assms(1)
        Invalidate_in_settlementEvents Refetch_in_settlementEvents Get_in_settlementEvents)
qed

lemma policy_useMutateEditProduct:
  assumes "axios v = Inr r" "i < length (queries w)" "distinct (map queryKey (queries w))"
  shows "invalidatedOnlyWithoutData products_filter (queries w ! i)
           (queries (useMutateEditProduct axios v w) ! i)
           (eventsOf (useMutateEditProduct axios v) w)"
proof -
  note q' = nth_queries_useMutateEditProduct[of axios v r i w, OF assms(1,2)]
  show ?thesis
    by (rule policy_settle[where u = "editProductUpdater r", OF assms(2,3) q'])
      (simp_all add: updater_None_iff eventsOf_useMutateEditProduct assms(1)
        Invalidate_in_settlementEvents Refetch_in_settlementEvents Get_in_settlementEvents)
qed

lemma policy_useMutateDeleteProduct:
  assumes "axios v = Inr r" "i < length (queries w)" "distinct (map queryKey (queries w))"
  shows "invalidatedOnlyWithoutData products_filter (queries w ! i)
           (queries (useMutateDeleteProduct axios v w) ! i)
           (eventsOf (useMutateDeleteProduct axios v) w)"
proof -
  note q' = nth_queries_useMutateDeleteProduct[of axios v r i w, OF assms(1,2)]
  show ?thesis
    by (rule policy_settle[where u = "deleteProductUpdater r", OF assms(2,3) q'])
      (simp_all add: updater_None_iff eventsOf_useMutateDeleteProduct assms(1)
        Invalidate_in_settlementEvents Refetch_in_settlementEvents Get_in_settlementEvents)
qed

lemma policy_useAddCategory:
  assumes "axios v = Inr r" "i < length (queries w)" "distinct (map queryKey (queries w))"
  shows "invalidatedOnlyWithoutData categories_filter (queries w ! i)
           (queries (useAddCategory axios v w) ! i)
           (eventsOf (useAddCategory axios v) w)"
proof -
  note q' = nth_queries_useAddCategory[of axios v r i w, OF assms(1,2)]
  show ?thesis
    by (rule policy_settle[where u = "addCategoryUpdater r", OF assms(2,3) q'])
      (simp_all add: updater_None_iff eventsOf_useAddCategory assms(1)
        Invalidate_in_settlementEvents Refetch_in_settlementEvents Get_in_settlementEvents)
qed

lemmas example_defs =
  exP1_def exP5_def exP5new_def exP7_def exP9_def exResponse_def exKeyAll_def exKeyCat2_def
  exKeyCat3_def exWorld_def exC1_def exC2_def exCategoryWorld_def exAddPayload_def
  exEditPayload_def exAddOk_def exEditOk_def exDeleteOk_def exDeleteRemaining_def
  exCategoryOk_def exRefuse_def exCategoryWorldLoading_def exP19_def exUnreachable_def
  exRefuseNoBody_def exWorldNoDataField_def

lemmas run_defs =
  useMutateAddProduct_def useMutateEditProduct_def useMutateDeleteProduct_def
  useAddCategory_def useMutation_def addProduct_def editProduct_def deleteProduct_def
  addCategory_def addProductOnSuccess_def editProductOnSuccess_def deleteProductOnSuccess_def
  addCategoryOnSuccess_def toastError_def editProductOnError_def addCategoryOnError_def
  addProductUpdater_def editProductUpdater_def deleteProductUpdater_def
  addCategoryUpdater_def invalidateQueries_def setQueriesData_def setQueryData_def
  cancelQueries_def emit_def noData_def partialMatchKey_def products_filter_def
  categories_filter_def error_message_def eventsOf_def Let_def

subsection \<open>Facts about the numbers of the price field\<close>

lemma bitLength_upper: "n < 2 ^ bitLength n"
proof (induction n rule: bitLength.induct)
  case (1 n)
  show ?case
  proof (cases "n = 0")
    case True
    then show ?thesis by (simp add: bitLength.simps)
  next
    case False
    with 1 have "n div 2 < 2 ^ bitLength (n div 2)" by simp
    then have "n < 2 * 2 ^ bitLength (n div 2)" by linarith
    with False show ?thesis by (simp add: bitLength.simps[of n])
  qed
qed

lemma bitLength_lower: "n \<noteq> 0 \<Longrightarrow> 2 ^ (bitLength n - 1) \<le> n"
proof (induction n rule: bitLength.induct)
  case (1 n)
  show ?case
  proof (cases "n div 2 = 0")
    case True
    with "1.prems" have "n = 1" by linarith
    then show ?thesis by (simp add: bitLength.simps)
  next
    case False
    with 1 have ih: "2 ^ (bitLength (n div 2) - 1) \<le> n div 2" by simp
    from False have pos: "0 < bitLength (n div 2)"
      by (simp add: bitLength.simps[of "n div 2"])
    then have "(2::nat) ^ bitLength (n div 2) = 2 * 2 ^ (bitLength (n div 2) - 1)"
      by (cases "bitLength (n div 2)") simp_all
    with ih have "2 ^ bitLength (n div 2) \<le> n" by linarith
    with "1.prems" show ?thesis by (simp add: bitLength.simps[of n])
  qed
qed

lemma bitLength_le: "n < 2 ^ k \<Longrightarrow> bitLength n \<le> k"
proof (cases "n = 0")
  case True
  then show ?thesis by (simp add: bitLength.simps)
next
  case False
  assume "n < 2 ^ k"
  with bitLength_lower[OF False] have "(2::nat) ^ (bitLength n - 1) < 2 ^ k" by linarith
  then have "bitLength n - 1 < k" by simp
  then show ?thesis by linarith
qed

lemma bitLength_gt: "2 ^ k \<le> n \<Longrightarrow> k < bitLength n"
proof -
  assume "2 ^ k \<le> n"
  with bitLength_upper[of n] have "(2::nat) ^ k < 2 ^ bitLength n" by linarith
  then show ?thesis by simp
qed

lemma toNumber_exact: "n < 2 ^ 53 \<Longrightarrow> toNumber n = Finite (of_nat n)"
proof -
  assume a: "n < 2 ^ 53"
  then have "bitLength n - 53 = 0"
    using bitLength_le[of n 53] by simp
  moreover have "n < 2 ^ 1024"
  proof -
    have "(2::nat) ^ 53 \<le> 2 ^ 1024" by (rule power_increasing) simp_all
    with a show ?thesis by linarith
  qed
  ultimately show ?thesis
    by (simp add: toNumber_def)
qed

lemma toNumber_finite:
  assumes "n < 2 ^ 1024 - 2 ^ 970"
  shows "\<exists>m. toNumber n = Finite (of_nat m)"
proof -
  define e where "e = bitLength n - 53"
  define P :: nat where "P = 2 ^ e"
  define q where "q = n div P"
  define r where "r = n mod P"
  define q' where "q' = (if P < 2 * r \<or> (2 * r = P \<and> odd q) then q + 1 else q)"
  define A :: nat where "A = 2 ^ 970"
  define B :: nat where "B = 2 ^ 1024"
  have AB: "2 * A < B" "A < B"
    unfolding A_def B_def by simp_all
  from assms have nB: "n + A < B"
    unfolding A_def B_def by simp
  then have "n < 2 ^ 1024"
    unfolding B_def by simp
  then have "bitLength n \<le> 1024"
    by (rule bitLength_le)
  then have "e \<le> 971"
    unfolding e_def by simp
  then have "P \<le> 2 ^ 971"
    unfolding P_def by (intro power_increasing) simp_all
  then have PA: "P \<le> 2 * A"
    unfolding A_def by simp
  have n: "n = q * P + r"
    unfolding q_def r_def by simp
  have "q' * P \<le> n + A"
  proof (cases "P < 2 * r \<or> (2 * r = P \<and> odd q)")
    case True
    then have "q' * P = q * P + P" "P \<le> 2 * r"
      unfolding q'_def by auto
    with n PA show ?thesis by linarith
  next
    case False
    then have "q' = q"
      unfolding q'_def by (simp only: if_False)
    then have "q' * P = q * P"
      by simp
    with n show ?thesis by linarith
  qed
  with nB have "q' * P < 2 ^ 1024"
    unfolding B_def by linarith
  then have "toNumber n = Finite (of_nat (q' * P))"
    unfolding toNumber_def Let_def q'_def q_def r_def P_def e_def by simp
  then show ?thesis by blast
qed

lemma toNumber_overflow:
  assumes "2 ^ 1024 - 2 ^ 970 \<le> n"
  shows "toNumber n = PosInfinity"
proof -
  define e where "e = bitLength n - 53"
  define P :: nat where "P = 2 ^ e"
  define q where "q = n div P"
  define r where "r = n mod P"
  define q' where "q' = (if P < 2 * r \<or> (2 * r = P \<and> odd q) then q + 1 else q)"
  have n: "n = q * P + r"
    unfolding q_def r_def by simp
  have rP: "r < P"
    unfolding r_def P_def by simp
  have "2 ^ 1024 \<le> q' * P"
  proof (cases "2 ^ 1024 \<le> n")
    case True
    then have "1024 < bitLength n" by (rule bitLength_gt)
    then have e: "bitLength n - 1 = 52 + e" "n \<noteq> 0" "1024 \<le> 52 + e"
      using True unfolding e_def by auto
    from bitLength_lower[OF e(2)] e(1) have "2 ^ 52 * P \<le> n"
      unfolding P_def by (simp add: power_add)
    moreover have "(q + 1) * P = q * P + P"
      by simp
    ultimately have "2 ^ 52 * P < (q + 1) * P"
      using n rP by linarith
    then have "2 ^ 52 < q + 1"
      by (simp only: mult_less_cancel2)
    then have "2 ^ 52 \<le> q"
      by simp
    then have "2 ^ 52 \<le> q'"
      unfolding q'_def by simp
    then have "2 ^ 52 * P \<le> q' * P"
      by (rule mult_le_mono1)
    moreover have "(2::nat) ^ 1024 \<le> 2 ^ (52 + e)"
      using e(3) by (intro power_increasing) simp_all
    moreover have "(2::nat) ^ (52 + e) = 2 ^ 52 * P"
      unfolding P_def by (rule power_add)
    ultimately show ?thesis
      by linarith
  next
    case False
    then have lt: "n < 2 ^ 1024" by simp
    have "(2::nat) ^ 1023 \<le> 2 ^ 1024 - 2 ^ 970" by simp
    with assms have "2 ^ 1023 \<le> n" by linarith
    then have "1023 < bitLength n" by (rule bitLength_gt)
    moreover from lt have "bitLength n \<le> 1024" by (rule bitLength_le)
    ultimately have "e = 971" unfolding e_def by simp
    then have P: "P = 2 ^ 971" unfolding P_def by simp
    have q_lt: "q < 2 ^ 53"
    proof (rule ccontr)
      assume "\<not> q < 2 ^ 53"
      then have "2 ^ 53 * P \<le> q * P" by simp
      with n lt show False unfolding P by simp
    qed
    have q_ge: "2 ^ 53 - 1 \<le> q"
    proof (rule ccontr)
      assume "\<not> 2 ^ 53 - 1 \<le> q"
      then have "q + 2 \<le> 2 ^ 53" by simp
      then have "(q + 2) * P \<le> 2 ^ 53 * P" by (rule mult_le_mono1)
      with n rP assms show False unfolding P by simp
    qed
    from q_lt q_ge have q: "q = 2 ^ 53 - 1" by linarith
    then have "odd q" by simp
    moreover have "P \<le> 2 * r"
      using n assms unfolding q P by simp
    ultimately have "q' = q + 1"
      unfolding q'_def by auto
    then show ?thesis
      unfolding q P by simp
  qed
  then have "\<not> q' * P < 2 ^ 1024" by simp
  then show ?thesis
    unfolding toNumber_def Let_def q'_def q_def r_def P_def e_def by simp
qed

section \<open>The claims\<close>

text \<open>
  C1: the patch to the cached lists is applied before the network call is issued, so
  that the effect of a mutation is visible at once. The descriptions of the hooks say
  so ("Immediately updates the local cache with the new product data", then "Sends the
  update request to the server"), but every hook writes in its success handler, from
  what the server answered. Editing product 5 on the example cache sends the request
  first and writes the two cached lists after it; the same order holds for the other
  three mutations, and when the request is refused the cache is never patched.
\<close>

theorem C1_patch_follows_request:
  "eventsOf (useMutateEditProduct exEditOk exEditPayload) exWorld =
     [HttpRequest PUT ''/api/product'',
      CancelQuery exKeyAll, CancelQuery exKeyCat2, CancelQuery exKeyCat3,
      SetQueryData exKeyAll, SetQueryData exKeyCat2,
      ToastSuccess ''Success'' ''Product updated successfully'',
      InvalidateQuery exKeyCat3, RefetchQuery exKeyCat3, HttpRequest GET ''/api/products'',
      ConsoleLog ''Product update mutation completed''] \<and>
   occursBefore isMutationRequest isSetQueryData
     (eventsOf (useMutateEditProduct exEditOk exEditPayload) exWorld) \<and>
   \<not> occursBefore isSetQueryData isMutationRequest
     (eventsOf (useMutateEditProduct exEditOk exEditPayload) exWorld) \<and>
   occursBefore isMutationRequest isSetQueryData
     (eventsOf (useMutateAddProduct exAddOk exAddPayload) exWorld) \<and>
   \<not> occursBefore isSetQueryData isMutationRequest
     (eventsOf (useMutateAddProduct exAddOk exAddPayload) exWorld) \<and>
   occursBefore isMutationRequest isSetQueryData
     (eventsOf (useMutateDeleteProduct exDeleteOk 7) exWorld) \<and>
   \<not> occursBefore isSetQueryData isMutationRequest
     (eventsOf (useMutateDeleteProduct exDeleteOk 7) exWorld) \<and>
   occursBefore isMutationRequest isSetQueryData
     (eventsOf (useAddCategory exCategoryOk ''office'') exCategoryWorld) \<and>
   \<not> occursBefore isSetQueryData isMutationRequest
     (eventsOf (useAddCategory exCategoryOk ''office'') exCategoryWorld) \<and>
   queries (useMutateEditProduct exRefuse exEditPayload exWorld) = queries exWorld"
  by (simp add: run_defs example_defs)

text \<open>
  C2: when the network call of a mutation fails, the cache after the mutation is the
  cache before it: the error handlers write nothing, so every query is left as it was.
\<close>

theorem C2_failure_leaves_cache_unchanged:
  "(isl (axiosA pa) \<longrightarrow> queries (useMutateAddProduct axiosA pa w) = queries w) \<and>
   (isl (axiosE pe) \<longrightarrow> queries (useMutateEditProduct axiosE pe w) = queries w) \<and>
   (isl (axiosD pd) \<longrightarrow> queries (useMutateDeleteProduct axiosD pd w) = queries w) \<and>
   (isl (axiosC pc) \<longrightarrow> queries (useAddCategory axiosC pc wc) = queries wc)"
  by (simp add: queries_on_failure)

theorem C2_failure_leaves_cache_unchanged_witness:
  "isl (exRefuse exAddPayload :: api_error + product response) \<and>
   isl (exRefuse exEditPayload :: api_error + product response) \<and>
   isl (exRefuse (7::int) :: api_error + product list response) \<and>
   isl (exRefuse ''office'' :: api_error + category list response) \<and>
   queries (useMutateAddProduct exRefuse exAddPayload exWorld) = queries exWorld \<and>
   queries (useMutateEditProduct exRefuse exEditPayload exWorld) = queries exWorld \<and>
   queries (useMutateDeleteProduct exRefuse 7 exWorld) = queries exWorld \<and>
   queries (useAddCategory exRefuse ''office'' exCategoryWorld) = queries exCategoryWorld"
proof -
  have a: "isl (exRefuse v :: api_error + 'r)" for v :: 'v
    by (simp add: exRefuse_def)
  show ?thesis
    using C2_failure_leaves_cache_unchanged[of exRefuse exAddPayload exWorld exRefuse
        exEditPayload exRefuse 7 exRefuse "''office''" exCategoryWorld]
    by (simp only: a simp_thms)
qed

text \<open>
  C3 (as stated): every Create places the new record at index 0 of the cached list, for
  the product and for the category instance. The category instance does not: with
  \<open>[exC1]\<close> cached and \<open>[exC2]\<close> answered by the server, the list afterwards is
  \<open>[exC1, exC2]\<close>, the new record last.
\<close>

theorem C3_category_create_appends:
  "state_data (queries (useAddCategory exCategoryOk ''office'' exCategoryWorld) ! 0) =
     Some (exResponse (Some [exC1, exC2])) \<and>
   [exC1, exC2] \<noteq> [exC2, exC1]"
  by (simp add: run_defs example_defs)

text \<open>
  C3 (amended): when a product Create succeeds, in every cached products entry that
  has data the record the server returned is at index 0 and the records cached before
  follow in their order; when a category Create succeeds, in every cached categories
  entry that has data the records cached before keep their places and the records the
  server returned follow them. The other fields of the cached response are kept.
\<close>

theorem C3_create_places_new_records:
  "(axiosA pa = Inr newProduct \<and> i < length (queries w) \<and>
    partialMatchKey (queryKey (queries w ! i)) products_filter \<and>
    state_data (queries w ! i) = Some old \<and> data old = Some xs \<longrightarrow>
    state_data (queries (useMutateAddProduct axiosA pa w) ! i) =
      Some (old\<lparr>data := Some (data newProduct # xs)\<rparr>)) \<and>
   (axiosC pc = Inr newCategory \<and> j < length (queries wc) \<and>
    partialMatchKey (queryKey (queries wc ! j)) categories_filter \<and>
    state_data (queries wc ! j) = Some oldc \<and> data oldc = Some ys \<longrightarrow>
    state_data (queries (useAddCategory axiosC pc wc) ! j) =
      Some (oldc\<lparr>data := Some (ys @ data newCategory)\<rparr>))"
  by (simp add: nth_queries_useMutateAddProduct nth_queries_useAddCategory
      addProductUpdater_def addCategoryUpdater_def)

theorem C3_create_places_new_records_witness:
  "exAddOk exAddPayload = Inr (exResponse exP9) \<and> 0 < length (queries exWorld) \<and>
   partialMatchKey (queryKey (queries exWorld ! 0)) products_filter \<and>
   state_data (queries exWorld ! 0) = Some (exResponse (Some [exP1, exP5, exP7])) \<and>
   data (exResponse (Some [exP1, exP5, exP7])) = Some [exP1, exP5, exP7] \<and>
   state_data (queries (useMutateAddProduct exAddOk exAddPayload exWorld) ! 0) =
     Some (exResponse (Some [exP9, exP1, exP5, exP7])) \<and>
   exCategoryOk ''office'' = Inr (exResponse [exC2]) \<and>
   0 < length (queries exCategoryWorld) \<and>
   partialMatchKey (queryKey (queries exCategoryWorld ! 0)) categories_filter \<and>
   state_data (queries exCategoryWorld ! 0) = Some (exResponse (Some [exC1])) \<and>
   data (exResponse (Some [exC1])) = Some [exC1] \<and>
   state_data (queries (useAddCategory exCategoryOk ''office'' exCategoryWorld) ! 0) =
     Some (exResponse (Some [exC1, exC2]))"
  using C3_create_places_new_records[of exAddOk exAddPayload "exResponse exP9" 0 exWorld
      "exResponse (Some [exP1, exP5, exP7])" "[exP1, exP5, exP7]"
      exCategoryOk "''office''" "exResponse [exC2]" 0 exCategoryWorld
      "exResponse (Some [exC1])" "[exC1]"]
  by (simp add: exAddOk_def exCategoryOk_def exWorld_def exCategoryWorld_def exResponse_def
      exKeyAll_def partialMatchKey_def products_filter_def categories_filter_def)

text \<open>
  C4: deleting the product with id X removes exactly the records with id X from every
  cached products entry and keeps the others. The hook means to do so ("removing the
  deleted product(s)", "Get IDs of deleted products"), but it never reads the id it was
  given: it removes the records whose ids occur in the list the server answers with,
  and the description of \<^verbatim>\<open>deleteProduct\<close> has that list hold the products that remain.
  With such an answer to the deletion of product 7, the entry that held products 1, 5
  and 7 holds product 7 alone afterwards, and the entry that held 5 and 7 likewise.
\<close>

theorem C4_delete_follows_server_list:
  "exDeleteRemaining 7 = Inr (exResponse [exP1, exP5]) \<and>
   state_data (queries exWorld ! 0) = Some (exResponse (Some [exP1, exP5, exP7])) \<and>
   state_data (queries exWorld ! 1) = Some (exResponse (Some [exP5, exP7])) \<and>
   state_data (queries (useMutateDeleteProduct exDeleteRemaining 7 exWorld) ! 0) =
     Some (exResponse (Some [exP7])) \<and>
   state_data (queries (useMutateDeleteProduct exDeleteRemaining 7 exWorld) ! 1) =
     Some (exResponse (Some [exP7])) \<and>
   product_id exP7 = 7 \<and> [exP7] \<noteq> [exP1, exP5] \<and> [exP7] \<noteq> [exP5]"
  by (simp add: run_defs example_defs)

text \<open>
  C5: when an Update succeeds, in every cached products entry that has data the record
  whose id is the id of the record the server returned is replaced by that record as a
  whole, every record with another id is unchanged, and the list keeps its length and
  its order; the other fields of the cached response are kept.
\<close>

theorem C5_update_replaces_matching_record:
  "axiosE pe = Inr newProduct \<and> i < length (queries w) \<and>
   partialMatchKey (queryKey (queries w ! i)) products_filter \<and>
   state_data (queries w ! i) = Some old \<and> data old = Some xs \<longrightarrow>
   (\<exists>ys. state_data (queries (useMutateEditProduct axiosE pe w) ! i) =
            Some (old\<lparr>data := Some ys\<rparr>) \<and>
          length ys = length xs \<and>
          (\<forall>j < length xs.
             (product_id (xs ! j) = product_id (data newProduct) \<longrightarrow>
                ys ! j = data newProduct) \<and>
             (product_id (xs ! j) \<noteq> product_id (data newProduct) \<longrightarrow> ys ! j = xs ! j)))"
proof (intro impI, elim conjE)
  assume h: "axiosE pe = Inr newProduct" "i < length (queries w)"
    "partialMatchKey (queryKey (queries w ! i)) products_filter"
    "state_data (queries w ! i) = Some old" "data old = Some xs"
  let ?ys = "map (\<lambda>product. if product_id product = product_id (data newProduct)
                              then data newProduct else product) xs"
  have "state_data (queries (useMutateEditProduct axiosE pe w) ! i) =
      Some (old\<lparr>data := Some ?ys\<rparr>)"
    using h by (simp add: nth_queries_useMutateEditProduct editProductUpdater_def)
  moreover have "length ?ys = length xs"
    by simp
  moreover have "\<forall>j < length xs.
      (product_id (xs ! j) = product_id (data newProduct) \<longrightarrow> ?ys ! j = data newProduct) \<and>
      (product_id (xs ! j) \<noteq> product_id (data newProduct) \<longrightarrow> ?ys ! j = xs ! j)"
    by simp
  ultimately show "\<exists>ys. state_data (queries (useMutateEditProduct axiosE pe w) ! i) =
            Some (old\<lparr>data := Some ys\<rparr>) \<and>
          length ys = length xs \<and>
          (\<forall>j < length xs.
             (product_id (xs ! j) = product_id (data newProduct) \<longrightarrow>
                ys ! j = data newProduct) \<and>
             (product_id (xs ! j) \<noteq> product_id (data newProduct) \<longrightarrow> ys ! j = xs ! j))"
    by blast
qed

theorem C5_update_replaces_matching_record_witness:
  "exEditOk exEditPayload = Inr (exResponse exP5new) \<and> 0 < length (queries exWorld) \<and>
   partialMatchKey (queryKey (queries exWorld ! 0)) products_filter \<and>
   state_data (queries exWorld ! 0) = Some (exResponse (Some [exP1, exP5, exP7])) \<and>
   data (exResponse (Some [exP1, exP5, exP7])) = Some [exP1, exP5, exP7] \<and>
   (\<exists>ys. state_data (queries (useMutateEditProduct exEditOk exEditPayload exWorld) ! 0) =
            Some (exResponse (Some ys)) \<and>
          length ys = 3 \<and> ys ! 0 = exP1 \<and> ys ! 1 = exP5new \<and> ys ! 2 = exP7)"
proof -
  have h: "exEditOk exEditPayload = Inr (exResponse exP5new) \<and> 0 < length (queries exWorld) \<and>
      partialMatchKey (queryKey (queries exWorld ! 0)) products_filter \<and>
      state_data (queries exWorld ! 0) = Some (exResponse (Some [exP1, exP5, exP7])) \<and>
      data (exResponse (Some [exP1, exP5, exP7])) = Some [exP1, exP5, exP7]"
    by (simp add: exEditOk_def exWorld_def exResponse_def exKeyAll_def partialMatchKey_def
        products_filter_def)
  with C5_update_replaces_matching_record[of exEditOk exEditPayload "exResponse exP5new" 0
      exWorld "exResponse (Some [exP1, exP5, exP7])" "[exP1, exP5, exP7]"]
  obtain ys where ys:
    "state_data (queries (useMutateEditProduct exEditOk exEditPayload exWorld) ! 0) =
       Some ((exResponse (Some [exP1, exP5, exP7]))\<lparr>data := Some ys\<rparr>)"
    "length ys = length [exP1, exP5, exP7]"
    "\<forall>j < length [exP1, exP5, exP7].
       (product_id ([exP1, exP5, exP7] ! j) = product_id (data (exResponse exP5new)) \<longrightarrow>
          ys ! j = data (exResponse exP5new)) \<and>
       (product_id ([exP1, exP5, exP7] ! j) \<noteq> product_id (data (exResponse exP5new)) \<longrightarrow>
          ys ! j = [exP1, exP5, exP7] ! j)"
    by blast
  from ys(3) have "ys ! 0 = exP1" "ys ! 1 = exP5new" "ys ! 2 = exP7"
    by (simp_all add: exResponse_def exP1_def exP5_def exP5new_def exP7_def)
  with ys(1,2) h show ?thesis
    by (simp add: exResponse_def)
qed

text \<open>
  C6: after a mutation has committed, a query that holds a value (so also the one that
  was just written with the committed record) is neither invalidated nor refetched,
  while a query of the same resource whose value is absent is invalidated, and
  refetched when it has a subscriber. The keys of a cache are distinct.
\<close>

theorem C6_invalidation_only_without_data:
  "(axiosA pa = Inr ra \<and> i < length (queries w) \<and> distinct (map queryKey (queries w)) \<longrightarrow>
      invalidatedOnlyWithoutData products_filter (queries w ! i)
        (queries (useMutateAddProduct axiosA pa w) ! i)
        (eventsOf (useMutateAddProduct axiosA pa) w)) \<and>
   (axiosE pe = Inr re \<and> i < length (queries w) \<and> distinct (map queryKey (queries w)) \<longrightarrow>
      invalidatedOnlyWithoutData products_filter (queries w ! i)
        (queries (useMutateEditProduct axiosE pe w) ! i)
        (eventsOf (useMutateEditProduct axiosE pe) w)) \<and>
   (axiosD pd = Inr rd \<and> i < length (queries w) \<and> distinct (map queryKey (queries w)) \<longrightarrow>
      invalidatedOnlyWithoutData products_filter (queries w ! i)
        (queries (useMutateDeleteProduct axiosD pd w) ! i)
        (eventsOf (useMutateDeleteProduct axiosD pd) w)) \<and>
   (axiosC pc = Inr rc \<and> j < length (queries wc) \<and> distinct (map queryKey (queries wc)) \<longrightarrow>
      invalidatedOnlyWithoutData categories_filter (queries wc ! j)
        (queries (useAddCategory axiosC pc wc) ! j)
        (eventsOf (useAddCategory axiosC pc) wc))"
  using policy_useMutateAddProduct[of axiosA pa ra i w]
    policy_useMutateEditProduct[of axiosE pe re i w]
    policy_useMutateDeleteProduct[of axiosD pd rd i w]
    policy_useAddCategory[of axiosC pc rc j wc]
  by blast

theorem C6_invalidation_only_without_data_witness:
  "exAddOk exAddPayload = Inr (exResponse exP9) \<and>
   exEditOk exEditPayload = Inr (exResponse exP5new) \<and>
   exDeleteOk 7 = Inr (exResponse [Product 7 [] 0 []]) \<and>
   exCategoryOk ''office'' = Inr (exResponse [exC2]) \<and>
   0 < length (queries exWorld) \<and> 2 < length (queries exWorld) \<and>
   distinct (map queryKey (queries exWorld)) \<and>
   0 < length (queries exCategoryWorldLoading) \<and>
   distinct (map queryKey (queries exCategoryWorldLoading)) \<and>
   invalidatedOnlyWithoutData products_filter (queries exWorld ! 0)
     (queries (useMutateAddProduct exAddOk exAddPayload exWorld) ! 0)
     (eventsOf (useMutateAddProduct exAddOk exAddPayload) exWorld) \<and>
   invalidatedOnlyWithoutData products_filter (queries exWorld ! 2)
     (queries (useMutateAddProduct exAddOk exAddPayload exWorld) ! 2)
     (eventsOf (useMutateAddProduct exAddOk exAddPayload) exWorld) \<and>
   invalidatedOnlyWithoutData products_filter (queries exWorld ! 2)
     (queries (useMutateEditProduct exEditOk exEditPayload exWorld) ! 2)
     (eventsOf (useMutateEditProduct exEditOk exEditPayload) exWorld) \<and>
   invalidatedOnlyWithoutData products_filter (queries exWorld ! 2)
     (queries (useMutateDeleteProduct exDeleteOk 7 exWorld) ! 2)
     (eventsOf (useMutateDeleteProduct exDeleteOk 7) exWorld) \<and>
   invalidatedOnlyWithoutData categories_filter (queries exCategoryWorldLoading ! 0)
     (queries (useAddCategory exCategoryOk ''office'' exCategoryWorldLoading) ! 0)
     (eventsOf (useAddCategory exCategoryOk ''office'') exCategoryWorldLoading) \<and>
   partialMatchKey (queryKey (queries exWorld ! 0)) products_filter \<and>
   state_data (queries (useMutateAddProduct exAddOk exAddPayload exWorld) ! 0) \<noteq> None \<and>
   InvalidateQuery exKeyAll \<notin> set (eventsOf (useMutateAddProduct exAddOk exAddPayload) exWorld) \<and>
   RefetchQuery exKeyAll \<notin> set (eventsOf (useMutateAddProduct exAddOk exAddPayload) exWorld) \<and>
   \<not> isInvalidated (queries (useMutateAddProduct exAddOk exAddPayload exWorld) ! 0) \<and>
   \<not> fetching (queries (useMutateAddProduct exAddOk exAddPayload exWorld) ! 0) \<and>
   partialMatchKey (queryKey (queries exWorld ! 2)) products_filter \<and>
   0 < observers (queries exWorld ! 2) \<and>
   state_data (queries (useMutateAddProduct exAddOk exAddPayload exWorld) ! 2) = None \<and>
   isInvalidated (queries (useMutateAddProduct exAddOk exAddPayload exWorld) ! 2) \<and>
   fetching (queries (useMutateAddProduct exAddOk exAddPayload exWorld) ! 2) \<and>
   InvalidateQuery exKeyCat3 \<in> set (eventsOf (useMutateAddProduct exAddOk exAddPayload) exWorld) \<and>
   RefetchQuery exKeyCat3 \<in> set (eventsOf (useMutateAddProduct exAddOk exAddPayload) exWorld) \<and>
   HttpRequest GET ''/api/products'' \<in>
     set (eventsOf (useMutateAddProduct exAddOk exAddPayload) exWorld)"
proof -
  have h: "exAddOk exAddPayload = Inr (exResponse exP9) \<and>
      exEditOk exEditPayload = Inr (exResponse exP5new) \<and>
      exDeleteOk 7 = Inr (exResponse [Product 7 [] 0 []]) \<and>
      exCategoryOk ''office'' = Inr (exResponse [exC2]) \<and>
      0 < length (queries exWorld) \<and> 2 < length (queries exWorld) \<and>
      distinct (map queryKey (queries exWorld)) \<and>
      0 < length (queries exCategoryWorldLoading) \<and>
      distinct (map queryKey (queries exCategoryWorldLoading))"
    by (simp add: exAddOk_def exEditOk_def exDeleteOk_def exCategoryOk_def exWorld_def
        exCategoryWorldLoading_def exKeyAll_def exKeyCat2_def exKeyCat3_def)
  note at0 = C6_invalidation_only_without_data[of exAddOk exAddPayload "exResponse exP9" 0
        exWorld exEditOk exEditPayload "exResponse exP5new" exDeleteOk 7
        "exResponse [Product 7 [] 0 []]" exCategoryOk "''office''" "exResponse [exC2]" 0
        exCategoryWorldLoading]
  note at2 = C6_invalidation_only_without_data[of exAddOk exAddPayload "exResponse exP9" 2
        exWorld exEditOk exEditPayload "exResponse exP5new" exDeleteOk 7
        "exResponse [Product 7 [] 0 []]" exCategoryOk "''office''" "exResponse [exC2]" 0
        exCategoryWorldLoading]
  have p0: "invalidatedOnlyWithoutData products_filter (queries exWorld ! 0)
      (queries (useMutateAddProduct exAddOk exAddPayload exWorld) ! 0)
      (eventsOf (useMutateAddProduct exAddOk exAddPayload) exWorld)"
    using at0 by (simp only: h simp_thms)
  have p2: "invalidatedOnlyWithoutData products_filter (queries exWorld ! 2)
      (queries (useMutateAddProduct exAddOk exAddPayload exWorld) ! 2)
      (eventsOf (useMutateAddProduct exAddOk exAddPayload) exWorld) \<and>
    invalidatedOnlyWithoutData products_filter (queries exWorld ! 2)
      (queries (useMutateEditProduct exEditOk exEditPayload exWorld) ! 2)
      (eventsOf (useMutateEditProduct exEditOk exEditPayload) exWorld) \<and>
    invalidatedOnlyWithoutData products_filter (queries exWorld ! 2)
      (queries (useMutateDeleteProduct exDeleteOk 7 exWorld) ! 2)
      (eventsOf (useMutateDeleteProduct exDeleteOk 7) exWorld) \<and>
    invalidatedOnlyWithoutData categories_filter (queries exCategoryWorldLoading ! 0)
      (queries (useAddCategory exCategoryOk ''office'' exCategoryWorldLoading) ! 0)
      (eventsOf (useAddCategory exCategoryOk ''office'') exCategoryWorldLoading)"
    using at2 by (simp only: h simp_thms)
  have k: "queryKey (queries exWorld ! 0) = exKeyAll" "queryKey (queries exWorld ! 2) = exKeyCat3"
    "queryFn (queries exWorld ! 2) = ''/api/products''"
    "partialMatchKey (queryKey (queries exWorld ! 0)) products_filter"
    "partialMatchKey (queryKey (queries exWorld ! 2)) products_filter"
    "0 < observers (queries exWorld ! 2)"
    by (simp_all add: exWorld_def exKeyAll_def exKeyCat3_def partialMatchKey_def
        products_filter_def)
  have d: "state_data (queries (useMutateAddProduct exAddOk exAddPayload exWorld) ! 0) \<noteq> None"
    "state_data (queries (useMutateAddProduct exAddOk exAddPayload exWorld) ! 2) = None"
    by (simp_all add: run_defs example_defs)
  have c0: "InvalidateQuery exKeyAll \<notin>
        set (eventsOf (useMutateAddProduct exAddOk exAddPayload) exWorld) \<and>
      RefetchQuery exKeyAll \<notin> set (eventsOf (useMutateAddProduct exAddOk exAddPayload) exWorld) \<and>
      \<not> isInvalidated (queries (useMutateAddProduct exAddOk exAddPayload exWorld) ! 0) \<and>
      \<not> fetching (queries (useMutateAddProduct exAddOk exAddPayload exWorld) ! 0)"
    using p0 d(1) k(1,4) unfolding invalidatedOnlyWithoutData_def by (simp only: simp_thms)
  have c2: "isInvalidated (queries (useMutateAddProduct exAddOk exAddPayload exWorld) ! 2) \<and>
      fetching (queries (useMutateAddProduct exAddOk exAddPayload exWorld) ! 2) \<and>
      InvalidateQuery exKeyCat3 \<in>
        set (eventsOf (useMutateAddProduct exAddOk exAddPayload) exWorld) \<and>
      RefetchQuery exKeyCat3 \<in> set (eventsOf (useMutateAddProduct exAddOk exAddPayload) exWorld) \<and>
      HttpRequest GET ''/api/products'' \<in>
        set (eventsOf (useMutateAddProduct exAddOk exAddPayload) exWorld)"
    using conjunct1[OF p2] d(2) k(2,3,5,6) unfolding invalidatedOnlyWithoutData_def
    by (simp only: simp_thms)
  show ?thesis
    using h p0 p2 k(4,5,6) d c0 c2 by (simp only: simp_thms)
qed

text \<open>
  C7 (as stated): every mutation that settles emits exactly one notification, a failure
  carrying the message of the server or a generic message. A category creation emits
  none, whether it commits or fails; a product creation that fails because the server
  cannot be reached shows a toast with no message at all; and one that fails with a
  response without a body shows nothing.
\<close>

theorem C7_notifications_missing:
  "filter isToast (eventsOf (useAddCategory exCategoryOk ''office'') exCategoryWorld) = [] \<and>
   filter isToast (eventsOf (useAddCategory exRefuse ''office'') exCategoryWorld) = [] \<and>
   filter isToast (eventsOf (useMutateAddProduct exUnreachable exAddPayload) exWorld) =
     [ToastError ''Failed'' None] \<and>
   filter isToast (eventsOf (useMutateAddProduct exRefuseNoBody exAddPayload) exWorld) = []"
  by (simp add: run_defs example_defs)

text \<open>
  C7 (amended): every product mutation (create, edit, delete) that commits emits exactly
  one notification, a success toast; one that fails emits exactly one failure toast,
  titled "Failed", whose description is the message the server reported when there is
  one and is absent otherwise, provided the message can be read from the error (no
  response, or a response with a body). The category-create mutation emits no toast at
  all (its error handler only logs to the console).
\<close>

theorem C7_one_toast_per_product_mutation:
  "(axiosA pa = Inr ra \<longrightarrow>
      filter isToast (eventsOf (useMutateAddProduct axiosA pa) w) =
        [ToastSuccess ''Success'' ''Product added successfully'']) \<and>
   (axiosA pa = Inl ea \<and> error_message ea = Inr da \<longrightarrow>
      filter isToast (eventsOf (useMutateAddProduct axiosA pa) w) =
        [ToastError ''Failed'' da]) \<and>
   (axiosE pe = Inr re \<longrightarrow>
      filter isToast (eventsOf (useMutateEditProduct axiosE pe) w) =
        [ToastSuccess ''Success'' ''Product updated successfully'']) \<and>
   (axiosE pe = Inl ee \<and> error_message ee = Inr de \<longrightarrow>
      filter isToast (eventsOf (useMutateEditProduct axiosE pe) w) =
        [ToastError ''Failed'' de]) \<and>
   (axiosD pd = Inr rd \<longrightarrow>
      filter isToast (eventsOf (useMutateDeleteProduct axiosD pd) w) =
        [ToastSuccess ''Success'' ''Product deleted successfully'']) \<and>
   (axiosD pd = Inl ed \<and> error_message ed = Inr dd \<longrightarrow>
      filter isToast (eventsOf (useMutateDeleteProduct axiosD pd) w) =
        [ToastError ''Failed'' dd]) \<and>
   filter isToast (eventsOf (useAddCategory axiosC pc) wc) = [] \<and>
   error_message (ApiError (Some (Data (Some m)))) = Inr (Some m) \<and>
   error_message (ApiError (Some (Data None))) = Inr None \<and>
   error_message (ApiError None) = Inr None"
  by (simp add: eventsOf_useMutateAddProduct eventsOf_useMutateEditProduct
      eventsOf_useMutateDeleteProduct eventsOf_useAddCategory
      filter_isToast_settlementEvents error_message_def split: sum.splits)

theorem C7_one_toast_per_product_mutation_witness:
  "exAddOk exAddPayload = Inr (exResponse exP9) \<and>
   exEditOk exEditPayload = Inr (exResponse exP5new) \<and>
   exDeleteOk 7 = Inr (exResponse [Product 7 [] 0 []]) \<and>
   exRefuse exAddPayload =
     (Inl (ApiError (Some (Data (Some ''Product already exists'')))) ::
        api_error + product response) \<and>
   exRefuse exEditPayload =
     (Inl (ApiError (Some (Data (Some ''Product already exists'')))) ::
        api_error + product response) \<and>
   exRefuse (7::int) =
     (Inl (ApiError (Some (Data (Some ''Product already exists'')))) ::
        api_error + product list response) \<and>
   error_message (ApiError (Some (Data (Some ''Product already exists'')))) =
     Inr (Some ''Product already exists'') \<and>
   filter isToast (eventsOf (useMutateAddProduct exAddOk exAddPayload) exWorld) =
     [ToastSuccess ''Success'' ''Product added successfully''] \<and>
   filter isToast (eventsOf (useMutateEditProduct exEditOk exEditPayload) exWorld) =
     [ToastSuccess ''Success'' ''Product updated successfully''] \<and>
   filter isToast (eventsOf (useMutateDeleteProduct exDeleteOk 7) exWorld) =
     [ToastSuccess ''Success'' ''Product deleted successfully''] \<and>
   filter isToast (eventsOf (useMutateAddProduct exRefuse exAddPayload) exWorld) =
     [ToastError ''Failed'' (Some ''Product already exists'')] \<and>
   filter isToast (eventsOf (useMutateEditProduct exRefuse exEditPayload) exWorld) =
     [ToastError ''Failed'' (Some ''Product already exists'')] \<and>
   filter isToast (eventsOf (useMutateDeleteProduct exRefuse 7) exWorld) =
     [ToastError ''Failed'' (Some ''Product already exists'')]"
proof -
  have h: "exAddOk exAddPayload = Inr (exResponse exP9)"
    "exEditOk exEditPayload = Inr (exResponse exP5new)"
    "exDeleteOk 7 = Inr (exResponse [Product 7 [] 0 []])"
    "error_message (ApiError (Some (Data (Some ''Product already exists'')))) =
       Inr (Some ''Product already exists'')"
    by (simp_all add: exAddOk_def exEditOk_def exDeleteOk_def error_message_def)
  have r: "exRefuse v = (Inl (ApiError (Some (Data (Some ''Product already exists'')))) ::
      api_error + 'r)" for v :: 'v
    by (simp add: exRefuse_def)
  show ?thesis
    using h
      C7_one_toast_per_product_mutation[where axiosA = exAddOk and pa = exAddPayload
        and ra = "exResponse exP9" and axiosE = exEditOk and pe = exEditPayload
        and re = "exResponse exP5new" and axiosD = exDeleteOk and pd = 7
        and rd = "exResponse [Product 7 [] 0 []]" and w = exWorld]
      C7_one_toast_per_product_mutation[where axiosA = exRefuse and pa = exAddPayload
        and ea = "ApiError (Some (Data (Some ''Product already exists'')))"
        and da = "Some ''Product already exists''"
        and axiosE = exRefuse and pe = exEditPayload
        and ee = "ApiError (Some (Data (Some ''Product already exists'')))"
        and de = "Some ''Product already exists''"
        and axiosD = exRefuse and pd = 7
        and ed = "ApiError (Some (Data (Some ''Product already exists'')))"
        and dd = "Some ''Product already exists''" and w = exWorld]
    by (simp only: h r simp_thms)
qed



text \<open>
  C9 (as stated): no field of an entry whose data is absent is modified by the cache
  write of a mutation. For an entry that holds a response without a data field the
  updater returns that response, and returning a value makes the client write it: the
  entry of the example, marked invalidated and last updated at time 100, is no longer
  marked and is stamped with the time of the run afterwards.
\<close>

theorem C9_write_touches_entry_without_data_field:
  "\<not> hasData (state_data (queries exWorldNoDataField ! 0)) \<and>
   partialMatchKey (queryKey (queries exWorldNoDataField ! 0)) products_filter \<and>
   isInvalidated (queries exWorldNoDataField ! 0) \<and>
   dataUpdatedAt (queries exWorldNoDataField ! 0) = 100 \<and>
   \<not> isInvalidated
      (queries (setQueriesData products_filter (addProductUpdater (exResponse exP9))
         exWorldNoDataField) ! 0) \<and>
   dataUpdatedAt
      (queries (setQueriesData products_filter (addProductUpdater (exResponse exP9))
         exWorldNoDataField) ! 0) = 1000 \<and>
   \<not> isInvalidated (queries (useMutateAddProduct exAddOk exAddPayload exWorldNoDataField) ! 0) \<and>
   dataUpdatedAt (queries (useMutateAddProduct exAddOk exAddPayload exWorldNoDataField) ! 0) =
     1000"
  by (simp add: run_defs example_defs hasData_def)

text \<open>
  C9 (amended): when the cached value of a query is absent (undefined, or a response
  without a data field), each updater returns it unchanged, so the cached value is
  never changed and no data is made up for it, by the write or by a run of any
  mutation, whatever its outcome. A query whose value is undefined is not written at
  all: no field of it is modified by the write. A query that holds a response without
  a data field keeps its value, its key, its query function, its observers and the
  state of its fetch.
\<close>

theorem C9_absent_data_is_left_alone:
  "(\<not> hasData x \<longrightarrow>
      addProductUpdater r x = x \<and> editProductUpdater r x = x \<and>
      deleteProductUpdater rs x = x) \<and>
   (\<not> hasData y \<longrightarrow> addCategoryUpdater cs y = y) \<and>
   (state_data q = None \<longrightarrow>
      setQueryData (addProductUpdater r) t q = q \<and>
      setQueryData (editProductUpdater r) t q = q \<and>
      setQueryData (deleteProductUpdater rs) t q = q) \<and>
   (state_data qc = None \<longrightarrow> setQueryData (addCategoryUpdater cs) t qc = qc) \<and>
   (\<not> hasData (state_data q) \<and>
    q' \<in> {setQueryData (addProductUpdater r) t q, setQueryData (editProductUpdater r) t q,
          setQueryData (deleteProductUpdater rs) t q} \<longrightarrow>
      state_data q' = state_data q \<and> queryKey q' = queryKey q \<and> queryFn q' = queryFn q \<and>
      observers q' = observers q \<and> fetching q' = fetching q) \<and>
   (\<not> hasData (state_data qc) \<longrightarrow>
      state_data (setQueryData (addCategoryUpdater cs) t qc) = state_data qc \<and>
      queryKey (setQueryData (addCategoryUpdater cs) t qc) = queryKey qc \<and>
      queryFn (setQueryData (addCategoryUpdater cs) t qc) = queryFn qc \<and>
      observers (setQueryData (addCategoryUpdater cs) t qc) = observers qc \<and>
      fetching (setQueryData (addCategoryUpdater cs) t qc) = fetching qc) \<and>
   (i < length (queries w) \<and> \<not> hasData (state_data (queries w ! i)) \<longrightarrow>
      state_data (queries (useMutateAddProduct axiosA pa w) ! i) = state_data (queries w ! i) \<and>
      state_data (queries (useMutateEditProduct axiosE pe w) ! i) = state_data (queries w ! i) \<and>
      state_data (queries (useMutateDeleteProduct axiosD pd w) ! i) =
        state_data (queries w ! i)) \<and>
   (j < length (queries wc) \<and> \<not> hasData (state_data (queries wc ! j)) \<longrightarrow>
      state_data (queries (useAddCategory axiosC pc wc) ! j) = state_data (queries wc ! j))"
proof -
  have u: "addProductUpdater r x = x" "editProductUpdater r x = x"
    "deleteProductUpdater rs x = x" if "\<not> hasData x"
    for r rs and x :: "product cached option"
    using that
    by (auto simp add: hasData_def addProductUpdater_def editProductUpdater_def
        deleteProductUpdater_def split: option.splits)
  have uc: "addCategoryUpdater cs y = y" if "\<not> hasData y"
    for cs and y :: "category cached option"
    using that by (auto simp add: hasData_def addCategoryUpdater_def split: option.splits)
  have n: "\<not> hasData (None :: 'a cached option)"
    by (simp add: hasData_def)
  have s: "setQueryData f t q = q" if "f None = None" "state_data q = None"
    for f and q :: "'a query"
    using that by (simp add: setQueryData_def)
  have a: "state_data (queries (useMutateAddProduct axiosA pa w) ! i) =
      state_data (queries w ! i)"
    if "i < length (queries w)" "\<not> hasData (state_data (queries w ! i))"
  proof (cases "axiosA pa")
    case (Inl e)
    then show ?thesis by (simp add: queries_on_failure)
  next
    case (Inr ra)
    with that u(1)[where x = "state_data (queries w ! i)" and r = ra] show ?thesis
      by (auto simp add: nth_queries_useMutateAddProduct Let_def split: option.splits)
  qed
  have e: "state_data (queries (useMutateEditProduct axiosE pe w) ! i) =
      state_data (queries w ! i)"
    if "i < length (queries w)" "\<not> hasData (state_data (queries w ! i))"
  proof (cases "axiosE pe")
    case (Inl e)
    then show ?thesis by (simp add: queries_on_failure)
  next
    case (Inr re)
    with that u(2)[where x = "state_data (queries w ! i)" and r = re] show ?thesis
      by (auto simp add: nth_queries_useMutateEditProduct Let_def split: option.splits)
  qed
  have d: "state_data (queries (useMutateDeleteProduct axiosD pd w) ! i) =
      state_data (queries w ! i)"
    if "i < length (queries w)" "\<not> hasData (state_data (queries w ! i))"
  proof (cases "axiosD pd")
    case (Inl e)
    then show ?thesis by (simp add: queries_on_failure)
  next
    case (Inr rd)
    with that u(3)[where x = "state_data (queries w ! i)" and rs = rd] show ?thesis
      by (auto simp add: nth_queries_useMutateDeleteProduct Let_def split: option.splits)
  qed
  have c: "state_data (queries (useAddCategory axiosC pc wc) ! j) =
      state_data (queries wc ! j)"
    if "j < length (queries wc)" "\<not> hasData (state_data (queries wc ! j))"
  proof (cases "axiosC pc")
    case (Inl e)
    then show ?thesis by (simp add: queries_on_failure)
  next
    case (Inr rc)
    with that uc[of "state_data (queries wc ! j)" rc] show ?thesis
      by (auto simp add: nth_queries_useAddCategory Let_def split: option.splits)
  qed
  have p1: "\<not> hasData x \<longrightarrow>
      addProductUpdater r x = x \<and> editProductUpdater r x = x \<and>
      deleteProductUpdater rs x = x"
    by (simp add: u)
  have p2: "\<not> hasData y \<longrightarrow> addCategoryUpdater cs y = y"
    by (simp add: uc)
  have p3: "state_data q = None \<longrightarrow>
      setQueryData (addProductUpdater r) t q = q \<and>
      setQueryData (editProductUpdater r) t q = q \<and>
      setQueryData (deleteProductUpdater rs) t q = q"
    by (simp add: s u n)
  have p4: "state_data qc = None \<longrightarrow> setQueryData (addCategoryUpdater cs) t qc = qc"
    by (simp add: s uc n)
  have p5: "\<not> hasData (state_data q) \<and>
    q' \<in> {setQueryData (addProductUpdater r) t q, setQueryData (editProductUpdater r) t q,
          setQueryData (deleteProductUpdater rs) t q} \<longrightarrow>
      state_data q' = state_data q \<and> queryKey q' = queryKey q \<and> queryFn q' = queryFn q \<and>
      observers q' = observers q \<and> fetching q' = fetching q"
  proof (intro impI, elim conjE)
    assume h: "\<not> hasData (state_data q)"
      and m: "q' \<in> {setQueryData (addProductUpdater r) t q,
          setQueryData (editProductUpdater r) t q, setQueryData (deleteProductUpdater rs) t q}"
    from m consider "q' = setQueryData (addProductUpdater r) t q"
      | "q' = setQueryData (editProductUpdater r) t q"
      | "q' = setQueryData (deleteProductUpdater rs) t q"
      by blast
    then show "state_data q' = state_data q \<and> queryKey q' = queryKey q \<and>
        queryFn q' = queryFn q \<and> observers q' = observers q \<and> fetching q' = fetching q"
    proof cases
      case 1
      with u(1)[OF h] show ?thesis
        by (simp add: setQueryData_simps split: option.splits)
    next
      case 2
      with u(2)[OF h] show ?thesis
        by (simp add: setQueryData_simps split: option.splits)
    next
      case 3
      with u(3)[OF h] show ?thesis
        by (simp add: setQueryData_simps split: option.splits)
    qed
  qed
  have p6: "\<not> hasData (state_data qc) \<longrightarrow>
      state_data (setQueryData (addCategoryUpdater cs) t qc) = state_data qc \<and>
      queryKey (setQueryData (addCategoryUpdater cs) t qc) = queryKey qc \<and>
      queryFn (setQueryData (addCategoryUpdater cs) t qc) = queryFn qc \<and>
      observers (setQueryData (addCategoryUpdater cs) t qc) = observers qc \<and>
      fetching (setQueryData (addCategoryUpdater cs) t qc) = fetching qc"
    using uc[of "state_data qc" cs]
    by (simp add: setQueryData_simps split: option.splits)
  have p7: "i < length (queries w) \<and> \<not> hasData (state_data (queries w ! i)) \<longrightarrow>
      state_data (queries (useMutateAddProduct axiosA pa w) ! i) = state_data (queries w ! i) \<and>
      state_data (queries (useMutateEditProduct axiosE pe w) ! i) = state_data (queries w ! i) \<and>
      state_data (queries (useMutateDeleteProduct axiosD pd w) ! i) =
        state_data (queries w ! i)"
    using a e d by simp
  have p8: "j < length (queries wc) \<and> \<not> hasData (state_data (queries wc ! j)) \<longrightarrow>
      state_data (queries (useAddCategory axiosC pc wc) ! j) = state_data (queries wc ! j)"
    using c by simp
  show ?thesis
    by (intro conjI) (fact p1 p2 p3 p4 p5 p6 p7 p8)+
qed

theorem C9_absent_data_is_left_alone_witness:
  "\<not> hasData (None :: product cached option) \<and>
   \<not> hasData (Some (exResponse None) :: product cached option) \<and>
   \<not> hasData (None :: category cached option) \<and>
   \<not> hasData (Some (exResponse None) :: category cached option) \<and>
   state_data (queries exWorld ! 2) = None \<and>
   state_data (queries exCategoryWorldLoading ! 0) = None \<and>
   \<not> hasData (state_data (queries exWorld ! 2)) \<and>
   \<not> hasData (state_data (queries exCategoryWorldLoading ! 0)) \<and>
   \<not> hasData (state_data (queries exWorldNoDataField ! 0)) \<and>
   2 < length (queries exWorld) \<and> 0 < length (queries exCategoryWorldLoading) \<and>
   addProductUpdater (exResponse exP9) None = None \<and>
   editProductUpdater (exResponse exP9) None = None \<and>
   deleteProductUpdater (exResponse [exP7]) None = None \<and>
   addCategoryUpdater (exResponse [exC2]) None = None \<and>
   addProductUpdater (exResponse exP9) (Some (exResponse None)) = Some (exResponse None) \<and>
   editProductUpdater (exResponse exP9) (Some (exResponse None)) = Some (exResponse None) \<and>
   deleteProductUpdater (exResponse [exP7]) (Some (exResponse None)) =
     Some (exResponse None) \<and>
   addCategoryUpdater (exResponse [exC2]) (Some (exResponse None)) = Some (exResponse None) \<and>
   setQueryData (addProductUpdater (exResponse exP9)) 1000 (queries exWorld ! 2) =
     queries exWorld ! 2 \<and>
   setQueryData (editProductUpdater (exResponse exP9)) 1000 (queries exWorld ! 2) =
     queries exWorld ! 2 \<and>
   setQueryData (deleteProductUpdater (exResponse [exP7])) 1000 (queries exWorld ! 2) =
     queries exWorld ! 2 \<and>
   setQueryData (addCategoryUpdater (exResponse [exC2])) 1000
       (queries exCategoryWorldLoading ! 0) =
     queries exCategoryWorldLoading ! 0 \<and>
   state_data (setQueryData (addProductUpdater (exResponse exP9)) 1000
       (queries exWorldNoDataField ! 0)) =
     state_data (queries exWorldNoDataField ! 0) \<and>
   state_data (setQueryData (addCategoryUpdater (exResponse [exC2])) 1000
       (queries exCategoryWorldLoading ! 0)) =
     state_data (queries exCategoryWorldLoading ! 0) \<and>
   state_data (queries (useMutateAddProduct exAddOk exAddPayload exWorld) ! 2) =
     state_data (queries exWorld ! 2) \<and>
   state_data (queries (useMutateEditProduct exEditOk exEditPayload exWorld) ! 2) =
     state_data (queries exWorld ! 2) \<and>
   state_data (queries (useMutateDeleteProduct exDeleteOk 7 exWorld) ! 2) =
     state_data (queries exWorld ! 2) \<and>
   state_data (queries (useAddCategory exCategoryOk ''office'' exCategoryWorldLoading) ! 0) =
     state_data (queries exCategoryWorldLoading ! 0)"
proof -
  have h: "\<not> hasData (None :: product cached option)"
    "\<not> hasData (Some (exResponse None) :: product cached option)"
    "\<not> hasData (None :: category cached option)"
    "\<not> hasData (Some (exResponse None) :: category cached option)"
    "state_data (queries exWorld ! 2) = None"
    "state_data (queries exCategoryWorldLoading ! 0) = None"
    "\<not> hasData (state_data (queries exWorld ! 2))"
    "\<not> hasData (state_data (queries exCategoryWorldLoading ! 0))"
    "\<not> hasData (state_data (queries exWorldNoDataField ! 0))"
    "2 < length (queries exWorld)" "0 < length (queries exCategoryWorldLoading)"
    by (simp_all add: hasData_def exResponse_def exWorld_def exCategoryWorldLoading_def
        exWorldNoDataField_def)
  have m: "setQueryData (addProductUpdater (exResponse exP9)) 1000
        (queries exWorldNoDataField ! 0) \<in>
      {setQueryData (addProductUpdater (exResponse exP9)) 1000 (queries exWorldNoDataField ! 0),
       setQueryData (editProductUpdater (exResponse exP9)) 1000 (queries exWorldNoDataField ! 0),
       setQueryData (deleteProductUpdater (exResponse [exP7])) 1000
         (queries exWorldNoDataField ! 0)}"
    by simp
  note at_none = C9_absent_data_is_left_alone[where x = None and y = None
        and r = "exResponse exP9" and rs = "exResponse [exP7]" and cs = "exResponse [exC2]"
        and q = "queries exWorld ! 2" and qc = "queries exCategoryWorldLoading ! 0"
        and q' = "setQueryData (addProductUpdater (exResponse exP9)) 1000
          (queries exWorld ! 2)"
        and t = 1000
        and i = 2 and w = exWorld and j = 0 and wc = exCategoryWorldLoading
        and axiosA = exAddOk and pa = exAddPayload and axiosE = exEditOk
        and pe = exEditPayload and axiosD = exDeleteOk and pd = 7
        and axiosC = exCategoryOk and pc = "''office''"]
  note at_some = C9_absent_data_is_left_alone[where x = "Some (exResponse None)"
        and y = "Some (exResponse None)"
        and r = "exResponse exP9" and rs = "exResponse [exP7]" and cs = "exResponse [exC2]"
        and q = "queries exWorldNoDataField ! 0" and qc = "queries exCategoryWorldLoading ! 0"
        and q' = "setQueryData (addProductUpdater (exResponse exP9)) 1000
          (queries exWorldNoDataField ! 0)"
        and t = 1000
        and i = 2 and w = exWorld and j = 0 and wc = exCategoryWorldLoading
        and axiosA = exAddOk and pa = exAddPayload and axiosE = exEditOk
        and pe = exEditPayload and axiosD = exDeleteOk and pd = 7
        and axiosC = exCategoryOk and pc = "''office''"]
  have c1: "state_data (setQueryData (addProductUpdater (exResponse exP9)) 1000
        (queries exWorldNoDataField ! 0)) =
      state_data (queries exWorldNoDataField ! 0)"
    using at_some h(9) m by (simp only: simp_thms)
  show ?thesis
    using at_none at_some c1 by (simp only: h simp_thms)
qed


subsection \<open>Facts about the price field\<close>

lemma isNonNegInteger_of_nat: "isNonNegInteger (Finite (of_nat n))"
  by simp

lemma not_isNonNegInteger_example: "\<not> isNonNegInteger (Finite (1999 / 100))"
proof -
  have "floor (1999 / 100 :: rat) = 19"
    by (rule floor_unique) simp_all
  then show ?thesis
    by simp
qed

lemma decimalValue_simps:
  "decimalValue [] = 0"
  "decimalValue (ds @ [c]) = 10 * decimalValue ds + (of_char c - 48)"
  by (simp_all add: decimalValue_def)

lemma priceFromInput_eq: "priceFromInput s = toNumber (decimalValue (filter isDigit s))"
  using toNumber_exact[of 0]
  by (simp add: priceFromInput_def parseInt10_def stripNonDigits_def Let_def decimalValue_def)

lemma priceFromInput_examples:
  "priceFromInput ''12.50'' = Finite 1250" "priceFromInput [] = Finite 0"
  "priceFromInput ''20 PHP'' = Finite 20"
proof -
  have "decimalValue (filter isDigit ''12.50'') = 1250"
    "decimalValue (filter isDigit []) = 0"
    "decimalValue (filter isDigit ''20 PHP'') = 20"
    by (simp_all add: isDigit_def decimalValue_def)
  then show "priceFromInput ''12.50'' = Finite 1250" "priceFromInput [] = Finite 0"
    "priceFromInput ''20 PHP'' = Finite 20"
    using toNumber_exact[of 1250] toNumber_exact[of 0] toNumber_exact[of 20]
    by (simp_all add: priceFromInput_eq)
qed

lemma decimalValue_zeros:
  "foldl (\<lambda>n c. 10 * n + (of_char c - 48)) (a::nat) (replicate k (CHR ''0'')) = a * 10 ^ k"
  by (induction k arbitrary: a) simp_all

lemma priceFromInput_huge: "priceFromInput exHugeInput = PosInfinity"
proof -
  have "filter isDigit exHugeInput = exHugeInput"
    by (simp add: exHugeInput_def isDigit_def)
  moreover have "decimalValue exHugeInput = 2 * 10 ^ 308"
    by (simp add: exHugeInput_def decimalValue_def decimalValue_zeros)
  moreover have "(2::nat) ^ 1024 - 2 ^ 970 \<le> 2 * 10 ^ 308"
    by simp
  ultimately show ?thesis
    by (simp only: priceFromInput_eq toNumber_overflow)
qed

lemma priceFromInput_range:
  "isNonNegInteger (priceFromInput s) \<or> priceFromInput s = PosInfinity"
proof (cases "decimalValue (filter isDigit s) < 2 ^ 1024 - 2 ^ 970")
  case True
  from toNumber_finite[OF True] show ?thesis
    by (auto simp add: priceFromInput_eq)
next
  case False
  then have "2 ^ 1024 - 2 ^ 970 \<le> decimalValue (filter isDigit s)"
    by simp
  then show ?thesis
    by (simp only: priceFromInput_eq toNumber_overflow simp_thms)
qed

text \<open>
  Whatever holds of the price the form starts with and of every value the price field
  can store holds of the price after any sequence of inputs.
\<close>

lemma price_foldl:
  assumes "P (price v)" "\<And>s. P (priceFromInput s)"
  shows "P (price (foldl fieldOnChange v evs))"
  using assms(1)
proof (induction evs arbitrary: v)
  case Nil
  then show ?case by simp
next
  case (Cons ev evs)
  have "P (price (fieldOnChange v ev))"
    using Cons.prems assms(2) by (cases ev) simp_all
  then show ?case
    using Cons.IH by simp
qed

text \<open>
  C10 (as stated): for every string typed into the price field the stored price is a
  non-negative integer, and so is every price in a submitted create or edit payload.
  An edit form starts from the price of the product it is opened on; when only the name
  is changed, that price is submitted as it is: 19.99 here. And a digit string beyond
  the range of a double, here 2 followed by 308 zeros, stores Infinity.
\<close>

theorem C10_price_not_always_integer:
  "onSubmit 1 (Some exP19) (formAfter (Some exP19) [NameChange ''Pencil'']) =
     EditProductCall (EditProductPayload 1 ''Pencil'' [1] (Finite (1999 / 100))) \<and>
   \<not> isNonNegInteger (Finite (1999 / 100)) \<and>
   price (fieldOnChange (defaultValues None) (PriceChange exHugeInput)) = PosInfinity \<and>
   \<not> isNonNegInteger PosInfinity"
  using not_isNonNegInteger_example
  by (simp add: priceFromInput_huge onSubmit_def formAfter_def defaultValues_def
      AddProductZodSchema_def exP19_def)

text \<open>
  C10 (amended): for every string typed into the price field, the non-digit characters
  are stripped and the digits that remain are read as a decimal number (so "12.50"
  yields 1250), the empty string yielding 0; the value stored is the double nearest to
  that number. It is a non-negative integer whenever the number is below
  \<open>2 ^ 1024 - 2 ^ 970\<close>, it is the number itself whenever that is below \<open>2 ^ 53\<close>, and
  it is Infinity from \<open>2 ^ 1024 - 2 ^ 970\<close> on. Hence the price of every submitted
  create payload is a non-negative integer or Infinity, and the price of a submitted
  edit payload is one of these or the price of the product the form was opened on; and
  no submission is made when the price is below the minimum of the schema.
\<close>

theorem C10_price_field_yields_natural:
  "price (fieldOnChange v (PriceChange s)) = toNumber (decimalValue (filter isDigit s)) \<and>
   decimalValue [] = 0 \<and>
   decimalValue (ds @ [c]) = 10 * decimalValue ds + (of_char c - 48) \<and>
   priceFromInput ''12.50'' = Finite 1250 \<and> priceFromInput [] = Finite 0 \<and>
   (decimalValue (filter isDigit s) < 2 ^ 53 \<longrightarrow>
      priceFromInput s = Finite (of_nat (decimalValue (filter isDigit s)))) \<and>
   (decimalValue (filter isDigit s) < 2 ^ 1024 - 2 ^ 970 \<longrightarrow>
      isNonNegInteger (priceFromInput s)) \<and>
   (2 ^ 1024 - 2 ^ 970 \<le> decimalValue (filter isDigit s) \<longrightarrow>
      priceFromInput s = PosInfinity) \<and>
   (onSubmit priceMin None (formAfter None evs) = AddProductCall pa \<longrightarrow>
      (isNonNegInteger (add_price pa) \<or> add_price pa = PosInfinity) \<and>
      numberAtLeast priceMin (add_price pa)) \<and>
   (onSubmit priceMin (Some opened) (formAfter (Some opened) evs) = EditProductCall pe \<longrightarrow>
      (isNonNegInteger (edit_price pe) \<or> edit_price pe = PosInfinity \<or>
       edit_price pe = Finite (product_price opened)) \<and>
      numberAtLeast priceMin (edit_price pe)) \<and>
   (\<not> numberAtLeast priceMin (price v) \<longrightarrow>
      onSubmit priceMin props_product v = NotSubmitted)"
proof -
  have field: "price (fieldOnChange v (PriceChange s)) =
      toNumber (decimalValue (filter isDigit s))"
    by (simp add: priceFromInput_eq)
  have exact: "priceFromInput s = Finite (of_nat (decimalValue (filter isDigit s)))"
    if "decimalValue (filter isDigit s) < 2 ^ 53"
    using toNumber_exact[OF that] by (simp add: priceFromInput_eq)
  have finite: "isNonNegInteger (priceFromInput s)"
    if "decimalValue (filter isDigit s) < 2 ^ 1024 - 2 ^ 970"
    using toNumber_finite[OF that] by (auto simp add: priceFromInput_eq)
  have overflow: "priceFromInput s = PosInfinity"
    if "2 ^ 1024 - 2 ^ 970 \<le> decimalValue (filter isDigit s)"
    using toNumber_overflow[OF that] by (simp add: priceFromInput_eq)
  have create: "isNonNegInteger (price (formAfter None evs)) \<or>
      price (formAfter None evs) = PosInfinity"
    unfolding formAfter_def
    by (rule price_foldl[where P = "\<lambda>x. isNonNegInteger x \<or> x = PosInfinity"])
      (simp_all add: defaultValues_def priceFromInput_range)
  have edit: "isNonNegInteger (price (formAfter (Some opened) evs)) \<or>
      price (formAfter (Some opened) evs) = PosInfinity \<or>
      price (formAfter (Some opened) evs) = Finite (product_price opened)"
    unfolding formAfter_def
    using priceFromInput_range
    by (intro price_foldl[where P = "\<lambda>x. isNonNegInteger x \<or> x = PosInfinity \<or>
          x = Finite (product_price opened)"])
      (auto simp add: defaultValues_def)
  have a: "(isNonNegInteger (add_price pa) \<or> add_price pa = PosInfinity) \<and>
      numberAtLeast priceMin (add_price pa)"
    if "onSubmit priceMin None (formAfter None evs) = AddProductCall pa"
    using that create
    by (auto simp add: onSubmit_def AddProductZodSchema_def split: if_splits)
  have e: "(isNonNegInteger (edit_price pe) \<or> edit_price pe = PosInfinity \<or>
       edit_price pe = Finite (product_price opened)) \<and>
      numberAtLeast priceMin (edit_price pe)"
    if "onSubmit priceMin (Some opened) (formAfter (Some opened) evs) = EditProductCall pe"
    using that edit
    by (auto simp add: onSubmit_def AddProductZodSchema_def split: if_splits)
  have r: "onSubmit priceMin props_product v = NotSubmitted"
    if "\<not> numberAtLeast priceMin (price v)"
    using that by (simp add: onSubmit_def AddProductZodSchema_def)
  show ?thesis
    using field exact finite overflow a e r decimalValue_simps(1) decimalValue_simps(2)[of ds c]
      priceFromInput_examples(1,2)
    by blast
qed

theorem C10_price_field_yields_natural_witness:
  "decimalValue (filter isDigit ''12.50'') < 2 ^ 53 \<and>
   decimalValue (filter isDigit ''12.50'') < 2 ^ 1024 - 2 ^ 970 \<and>
   2 ^ 1024 - 2 ^ 970 \<le> decimalValue (filter isDigit exHugeInput) \<and>
   priceFromInput ''12.50'' = Finite (of_nat (decimalValue (filter isDigit ''12.50''))) \<and>
   isNonNegInteger (priceFromInput ''12.50'') \<and>
   priceFromInput exHugeInput = PosInfinity \<and>
   onSubmit 1 None
     (formAfter None [NameChange ''Ink'', PriceChange ''12.50'', CategoriesChange [exC1]]) =
     AddProductCall (AddProductPayload ''Ink'' [1] (Finite 1250)) \<and>
   (isNonNegInteger (Finite 1250) \<or> Finite 1250 = PosInfinity) \<and>
   numberAtLeast 1 (Finite 1250) \<and>
   onSubmit 1 (Some exP19) (formAfter (Some exP19) [PriceChange ''20 PHP'']) =
     EditProductCall (EditProductPayload 1 ''Pen'' [1] (Finite 20)) \<and>
   (isNonNegInteger (Finite 20) \<or> Finite 20 = PosInfinity \<or>
    Finite 20 = Finite (product_price exP19)) \<and>
   numberAtLeast 1 (Finite 20) \<and>
   \<not> numberAtLeast 1 (price (defaultValues None)) \<and>
   onSubmit 1 None (defaultValues None) = NotSubmitted"
proof -
  have h: "decimalValue (filter isDigit ''12.50'') < 2 ^ 53"
    "decimalValue (filter isDigit ''12.50'') < 2 ^ 1024 - 2 ^ 970"
    by (simp_all add: isDigit_def decimalValue_def)
  have g: "2 ^ 1024 - 2 ^ 970 \<le> decimalValue (filter isDigit exHugeInput)"
  proof -
    have "filter isDigit exHugeInput = exHugeInput"
      by (simp add: exHugeInput_def isDigit_def)
    moreover have "decimalValue exHugeInput = 2 * 10 ^ 308"
      by (simp add: exHugeInput_def decimalValue_def decimalValue_zeros)
    ultimately show ?thesis
      by simp
  qed
  have f: "onSubmit 1 None
      (formAfter None [NameChange ''Ink'', PriceChange ''12.50'', CategoriesChange [exC1]]) =
      AddProductCall (AddProductPayload ''Ink'' [1] (Finite 1250))"
    "onSubmit 1 (Some exP19) (formAfter (Some exP19) [PriceChange ''20 PHP'']) =
      EditProductCall (EditProductPayload 1 ''Pen'' [1] (Finite 20))"
    "\<not> numberAtLeast 1 (price (defaultValues None))"
    by (simp_all add: onSubmit_def formAfter_def defaultValues_def AddProductZodSchema_def
        priceFromInput_examples exC1_def exP19_def)
  note small = C10_price_field_yields_natural[where s = "''12.50''" and priceMin = 1
        and opened = exP19
        and evs = "[NameChange ''Ink'', PriceChange ''12.50'', CategoriesChange [exC1]]"
        and pa = "AddProductPayload ''Ink'' [1] (Finite 1250)"
        and pe = "EditProductPayload 1 ''Pencil'' [1] (Finite 20)"
        and v = "defaultValues None" and props_product = None]
  note huge = C10_price_field_yields_natural[where s = exHugeInput and priceMin = 1
        and opened = exP19
        and evs = "[PriceChange ''20 PHP'']"
        and pa = "AddProductPayload ''Ink'' [1] (Finite 1250)"
        and pe = "EditProductPayload 1 ''Pen'' [1] (Finite 20)"
        and v = "defaultValues None" and props_product = None]
  have c1: "priceFromInput ''12.50'' =
        Finite (of_nat (decimalValue (filter isDigit ''12.50''))) \<and>
      isNonNegInteger (priceFromInput ''12.50'') \<and>
      (isNonNegInteger (add_price (AddProductPayload ''Ink'' [1] (Finite 1250))) \<or>
       add_price (AddProductPayload ''Ink'' [1] (Finite 1250)) = PosInfinity) \<and>
      numberAtLeast 1 (add_price (AddProductPayload ''Ink'' [1] (Finite 1250))) \<and>
      onSubmit 1 None (defaultValues None) = NotSubmitted"
    using small h f(1,3) by blast
  have c2: "priceFromInput exHugeInput = PosInfinity \<and>
      (isNonNegInteger (edit_price (EditProductPayload 1 ''Pen'' [1] (Finite 20))) \<or>
       edit_price (EditProductPayload 1 ''Pen'' [1] (Finite 20)) = PosInfinity \<or>
       edit_price (EditProductPayload 1 ''Pen'' [1] (Finite 20)) =
         Finite (product_price exP19)) \<and>
      numberAtLeast 1 (edit_price (EditProductPayload 1 ''Pen'' [1] (Finite 20)))"
    using huge g f(2) by blast
  show ?thesis
    using h g f c1[unfolded add_payload.sel] c2[unfolded edit_payload.sel] by blast
qed

end
